theory Spec2Isabelle
  imports Complex_Main
begin

section \<open>The llama.cpp embedding adapter (packages/core/src/embedding/llamacpp-embedding.ts)\<close>

text \<open>
  A shallow embedding of the class \<open>LlamaCppEmbedding\<close>.

  \<^item> Arguments and configuration fields have their declared TypeScript types: a string is a
    \<open>string\<close> (a list of code units below 256), an optional field is an \<open>option\<close>
    (\<open>None\<close> is \<open>undefined\<close>), a \<open>number\<close> is an \<open>int\<close> (the integer-valued numbers;
    NaN and the infinities are left out). The \<open>typeof\<close> guards of the source only fire
    on ill-typed arguments and have no branch here; the guard on a missing configuration
    object has one.
  \<^item> Exceptions are values: every operation returns \<open>js_error + 'a\<close> together with the
    state it leaves behind, also when it throws.
  \<^item> The configuration object is held by reference, so configuration objects live in a
    store of addresses; the adapter keeps the address.
  \<^item> The network is a parameter: \<open>fetch\<close> maps the requests made so far and the
    current request to what the call yields. Every call is recorded in \<open>requests\<close>.
    A timeout is the outcome in which \<open>fetch\<close> throws an \<open>AbortError\<close>.
  \<^item> \<open>console.log\<close> and \<open>console.error\<close> are not modelled.
\<close>

subsection \<open>JavaScript strings\<close>

definition startsWith :: "string \<Rightarrow> string \<Rightarrow> bool" where
  "startsWith s p = (take (length p) s = p)"

fun js_includes :: "string \<Rightarrow> string \<Rightarrow> bool" where
  "js_includes [] p = (p = [])"
| "js_includes (c # cs) p = (startsWith (c # cs) p \<or> js_includes cs p)"

text \<open>The white space and line terminators of ECMAScript below code unit 256:
  TAB, LF, VT, FF, CR, SP and NBSP.\<close>

definition isWhiteSpace :: "char \<Rightarrow> bool" where
  "isWhiteSpace c = (of_char c \<in> {9, 10, 11, 12, 13, 32, 160 :: nat})"

definition trim :: "string \<Rightarrow> string" where
  "trim s = rev (dropWhile isWhiteSpace (rev (dropWhile isWhiteSpace s)))"

text \<open>Template literals print a number in decimal (as JavaScript does below \<open>10^21\<close>).\<close>

fun show_nat :: "nat \<Rightarrow> string" where
  "show_nat n = (if n < 10 then [''0123456789'' ! n]
                 else show_nat (n div 10) @ [''0123456789'' ! (n mod 10)])"

declare show_nat.simps [simp del]

definition show_int :: "int \<Rightarrow> string" where
  "show_int i = (if i < 0 then ''-'' @ show_nat (nat (- i)) else show_nat (nat i))"

subsection \<open>Data\<close>

record LlamaCppEmbeddingConfig =
  host :: "string option"
  model :: "string option"
  codePrefix :: "bool option"
  dimension :: "int option"
  maxTokens :: "int option"
  timeout :: "int option"

text \<open>Thrown values: the two error classes of the module (with the message their
  constructors build, and the \<open>originalError\<close> of a network error), any other \<open>Error\<close>
  with its name and message, and a thrown value that is no \<open>Error\<close>.\<close>

datatype js_error =
    LlamaCppConfigurationError string
  | LlamaCppNetworkError string "js_error option"
  | JsError string string
  | NonErrorValue

definition ConfigurationError :: "string \<Rightarrow> js_error" where
  "ConfigurationError message = LlamaCppConfigurationError (''LlamaCpp configuration error: '' @ message)"

definition NetworkError :: "string \<Rightarrow> js_error option \<Rightarrow> js_error" where
  "NetworkError message originalError =
     LlamaCppNetworkError (''LlamaCpp network error: '' @ message) originalError"

fun isConfigurationError :: "js_error \<Rightarrow> bool" where
  "isConfigurationError (LlamaCppConfigurationError _) = True"
| "isConfigurationError _ = False"

fun isNetworkError :: "js_error \<Rightarrow> bool" where
  "isNetworkError (LlamaCppNetworkError _ _) = True"
| "isNetworkError _ = False"

fun instanceofError :: "js_error \<Rightarrow> bool" where
  "instanceofError NonErrorValue = False"
| "instanceofError _ = True"

fun error_message :: "js_error \<Rightarrow> string" where
  "error_message (LlamaCppConfigurationError m) = m"
| "error_message (LlamaCppNetworkError m _) = m"
| "error_message (JsError _ m) = m"
| "error_message NonErrorValue = []"

text \<open>A parsed response body.\<close>

datatype json =
    JNull
  | JBool bool
  | JNum real
  | JStr string
  | JArr "json list"
  | JObj "(string \<times> json) list"

text \<open>Property access \<open>v.k\<close> for the keys the adapter reads (\<open>data\<close>, \<open>embedding\<close>):
  only an object has them; \<open>None\<close> is \<open>undefined\<close>.\<close>

fun get_prop :: "json \<Rightarrow> string \<Rightarrow> json option" where
  "get_prop (JObj kvs) k = map_of kvs k"
| "get_prop _ k = None"

fun truthy :: "json option \<Rightarrow> bool" where
  "truthy None = False"
| "truthy (Some JNull) = False"
| "truthy (Some (JBool b)) = b"
| "truthy (Some (JNum r)) = (r \<noteq> 0)"
| "truthy (Some (JStr s)) = (s \<noteq> [])"
| "truthy (Some (JArr _)) = True"
| "truthy (Some (JObj _)) = True"

fun typeofObject :: "json option \<Rightarrow> bool" where
  "typeofObject (Some JNull) = True"
| "typeofObject (Some (JArr _)) = True"
| "typeofObject (Some (JObj _)) = True"
| "typeofObject _ = False"

fun isArray :: "json option \<Rightarrow> bool" where
  "isArray (Some (JArr _)) = True"
| "isArray _ = False"

record EmbeddingVector =
  vector :: "json list"
  vdimension :: int

datatype request_input = Single string | Batch "string list"

record request_body =
  input :: request_input
  body_model :: string

text \<open>One call of \<open>fetch\<close>: the URL, the body, and the delay of the abort timer.\<close>

record request =
  url :: string
  body :: request_body
  abort_after :: int

record http_response =
  ok :: bool
  status :: int
  statusText :: string
  response_text :: "js_error + string"
  response_json :: "js_error + json"

type_synonym addr = nat

record world =
  store :: "addr \<Rightarrow> LlamaCppEmbeddingConfig"
  next_addr :: addr
  requests :: "request list"

text \<open>The collaborators outside the file: the platform's \<open>URL\<close> parser (the protocol of a
  URL, \<open>None\<close> when \<open>new URL\<close> throws), the base class's \<open>preprocessText\<close> hook (it sees
  the protected \<open>maxTokens\<close>), and the platform's \<open>fetch\<close>.\<close>

record env =
  URL_protocol :: "string \<Rightarrow> string option"
  preprocessText :: "int \<Rightarrow> string \<Rightarrow> string"
  fetch :: "request list \<Rightarrow> request \<Rightarrow> js_error + http_response"

record LlamaCppEmbedding =
  this_config :: addr
  this_dimension :: int
  this_dimensionDetected :: bool
  this_maxTokens :: int
  this_host :: string
  this_codePrefix :: string

definition config :: "LlamaCppEmbedding \<Rightarrow> world \<Rightarrow> LlamaCppEmbeddingConfig" where
  "config a w = store w (this_config a)"

definition set_config :: "LlamaCppEmbedding \<Rightarrow> (LlamaCppEmbeddingConfig \<Rightarrow> LlamaCppEmbeddingConfig) \<Rightarrow> world \<Rightarrow> world" where
  "set_config a f w = w\<lparr>store := (store w)(this_config a := f (store w (this_config a)))\<rparr>"

text \<open>Truthiness of an optional number and of an optional string.\<close>

fun truthy_num :: "int option \<Rightarrow> bool" where
  "truthy_num None = False"
| "truthy_num (Some n) = (n \<noteq> 0)"

fun truthy_str :: "string option \<Rightarrow> bool" where
  "truthy_str None = False"
| "truthy_str (Some s) = (s \<noteq> [])"

text \<open>\<open>x || d\<close>\<close>

fun or_default_num :: "int option \<Rightarrow> int \<Rightarrow> int" where
  "or_default_num (Some n) d = (if n \<noteq> 0 then n else d)"
| "or_default_num None d = d"

fun or_default_str :: "string option \<Rightarrow> string \<Rightarrow> string" where
  "or_default_str (Some s) d = (if s \<noteq> [] then s else d)"
| "or_default_str None d = d"

subsection \<open>Construction\<close>

definition validateHostUrl :: "env \<Rightarrow> string \<Rightarrow> js_error + unit" where
  "validateHostUrl e h =
     (case URL_protocol e h of
        None \<Rightarrow> Inl (ConfigurationError (''Invalid host URL: '' @ h))
      | Some protocol \<Rightarrow>
          if protocol \<noteq> ''http:'' \<and> protocol \<noteq> ''https:''
          then Inl (ConfigurationError (''Unsupported protocol: '' @ protocol @
                      ''. Only HTTP and HTTPS are supported''))
          else Inr ())"

definition validateConfig :: "env \<Rightarrow> LlamaCppEmbeddingConfig option \<Rightarrow> js_error + unit" where
  "validateConfig e c_opt =
     (case c_opt of
        None \<Rightarrow> Inl (ConfigurationError ''Configuration object is required'')
      | Some c \<Rightarrow>
          if (case timeout c of None \<Rightarrow> False | Some t \<Rightarrow> t \<le> 0)
          then Inl (ConfigurationError ''Timeout must be a positive number'')
          else (case host c of
                  None \<Rightarrow> Inr ()
                | Some h \<Rightarrow> if h \<noteq> [] then validateHostUrl e h else Inr ()))"

text \<open>\<open>host.replace(/\/$/, '')\<close>: one trailing slash is removed.\<close>

definition normalizeHost :: "string \<Rightarrow> string" where
  "normalizeHost h = (if h \<noteq> [] \<and> last h = CHR ''/'' then butlast h else h)"

text \<open>The two blocks "set dimension if provided" and "set max tokens if provided".\<close>

fun set_dimension_if_provided :: "int option \<Rightarrow> LlamaCppEmbedding \<Rightarrow> js_error + LlamaCppEmbedding" where
  "set_dimension_if_provided None a = Inr a"
| "set_dimension_if_provided (Some d) a =
     (if d \<noteq> 0
      then (if d \<le> 0 then Inl (ConfigurationError ''Dimension must be a positive number'')
            else Inr (a\<lparr>this_dimension := d, this_dimensionDetected := True\<rparr>))
      else Inr a)"

fun set_maxTokens_if_provided :: "int option \<Rightarrow> LlamaCppEmbedding \<Rightarrow> js_error + LlamaCppEmbedding" where
  "set_maxTokens_if_provided None a = Inr a"
| "set_maxTokens_if_provided (Some n) a =
     (if n \<noteq> 0
      then (if n \<le> 0 then Inl (ConfigurationError ''Max tokens must be a positive number'')
            else Inr (a\<lparr>this_maxTokens := n\<rparr>))
      else Inr a)"

text \<open>\<open>new LlamaCppEmbedding(config)\<close>: the argument is a reference to the caller's object
  (\<open>None\<close> when the caller passes no object). The field initialisers give 768, false, 8192
  and the default prefix.\<close>

definition "constructor" :: "env \<Rightarrow> addr option \<Rightarrow> world \<Rightarrow> (js_error + LlamaCppEmbedding) \<times> world" where
  "constructor e cref w =
     (case validateConfig e (map_option (store w) cref) of
        Inl err \<Rightarrow> (Inl err, w)
      | Inr _ \<Rightarrow>
          (case cref of
             None \<Rightarrow> (Inl (JsError ''TypeError'' ''Cannot read properties of undefined''), w)
           | Some r \<Rightarrow>
               (let c = store w r;
                    a0 = \<lparr>this_config = r, this_dimension = 768, this_dimensionDetected = False,
                          this_maxTokens = 8192,
                          this_host = normalizeHost (or_default_str (host c) ''http://localhost:8080''),
                          this_codePrefix = ''Represent this query for searching relevant code:''\<rparr>
                in case set_dimension_if_provided (dimension c) a0 of
                     Inl err \<Rightarrow> (Inl err, w)
                   | Inr a1 \<Rightarrow>
                       (case set_maxTokens_if_provided (maxTokens c) a1 of
                          Inl err \<Rightarrow> (Inl err, w)
                        | Inr a2 \<Rightarrow>
                            (Inr a2,
                             if codePrefix c = None
                             then w\<lparr>store := (store w)(r := c\<lparr>codePrefix := Some True\<rparr>)\<rparr>
                             else w)))))"

subsection \<open>Requests\<close>

text \<open>The body of the \<open>try\<close> block of \<open>makeRequest\<close>.\<close>

definition makeRequest_try :: "env \<Rightarrow> LlamaCppEmbedding \<Rightarrow> world \<Rightarrow> string \<Rightarrow> request_body \<Rightarrow> (js_error + json) \<times> world" where
  "makeRequest_try e a w u b =
     (let req = \<lparr>url = u, body = b, abort_after = or_default_num (timeout (config a w)) 30000\<rparr>;
          w' = w\<lparr>requests := requests w @ [req]\<rparr>
      in case fetch e (requests w) req of
           Inl err \<Rightarrow> (Inl err, w')
         | Inr response \<Rightarrow>
             if \<not> ok response
             then (let errorDetails = (case response_text response of
                                         Inl _ \<Rightarrow> ''Unable to read error response''
                                       | Inr s \<Rightarrow> s)
                   in (Inl (NetworkError (''HTTP '' @ show_int (status response) @ '' ('' @
                              statusText response @ ''): '' @ errorDetails) None), w'))
             else (case response_json response of
                     Inl parseError \<Rightarrow>
                       (Inl (NetworkError ''Invalid JSON response from server''
                               (if instanceofError parseError then Some parseError else None)), w')
                   | Inr responseData \<Rightarrow> (Inr responseData, w')))"

text \<open>The \<open>catch\<close> block of \<open>makeRequest\<close>: what is thrown for a caught error.\<close>

definition makeRequest_catch :: "LlamaCppEmbedding \<Rightarrow> world \<Rightarrow> js_error \<Rightarrow> js_error" where
  "makeRequest_catch a w err =
     (if isNetworkError err \<or> isConfigurationError err then err
      else (case err of
              JsError name message \<Rightarrow>
                if name = ''AbortError''
                then NetworkError (''Request timeout after '' @
                       show_int (or_default_num (timeout (config a w)) 30000) @
                       ''ms - server at '' @ this_host a @ '' not responding'') (Some err)
                else if name = ''TypeError'' \<and> js_includes message ''fetch''
                then NetworkError (''Unable to connect to llama.cpp server at '' @ this_host a @
                       ''. Please ensure the server is running and accessible.'') (Some err)
                else NetworkError (''Unexpected error: '' @ message) (Some err)
            | _ \<Rightarrow> NetworkError ''Unknown error occurred during request'' None))"

definition makeRequest :: "env \<Rightarrow> LlamaCppEmbedding \<Rightarrow> world \<Rightarrow> string \<Rightarrow> request_body \<Rightarrow> (js_error + json) \<times> world" where
  "makeRequest e a w u b =
     (case makeRequest_try e a w u b of
        (Inl err, w') \<Rightarrow> (Inl (makeRequest_catch a w err), w')
      | (Inr responseData, w') \<Rightarrow> (Inr responseData, w'))"

definition preprocessTextForCode :: "env \<Rightarrow> LlamaCppEmbedding \<Rightarrow> world \<Rightarrow> string \<Rightarrow> string" where
  "preprocessTextForCode e a w t =
     (let processedText = preprocessText e (this_maxTokens a) t
      in if codePrefix (config a w) = Some True \<and> \<not> startsWith processedText (this_codePrefix a)
         then this_codePrefix a @ '' '' @ processedText
         else processedText)"

text \<open>The shape checks on a single response (lines 212 to 233 of \<open>embed\<close>, and again
  lines 334 to 353 of \<open>detectDimension\<close>): the elements of \<open>response.data[0].embedding\<close>.
  Only an array passes \<open>!x || !Array.isArray(x)\<close>.\<close>

definition firstEmbedding :: "json \<Rightarrow> js_error + json list" where
  "firstEmbedding response =
     (if \<not> truthy (Some response) \<or> \<not> typeofObject (Some response)
      then Inl (NetworkError ''Invalid response format: expected object'' None)
      else (case get_prop response ''data'' of
              Some (JArr d) \<Rightarrow>
                (case d of
                   [] \<Rightarrow> Inl (NetworkError ''Invalid response format: empty data array'' None)
                 | firstItem # _ \<Rightarrow>
                     if \<not> truthy (Some firstItem) \<or> \<not> typeofObject (Some firstItem)
                     then Inl (NetworkError ''Invalid response format: invalid first data item'' None)
                     else (case get_prop firstItem ''embedding'' of
                             Some (JArr embedding) \<Rightarrow> Inr embedding
                           | _ \<Rightarrow> Inl (NetworkError
                                 ''Invalid response format: missing or invalid embedding array'' None)))
            | _ \<Rightarrow> Inl (NetworkError ''Invalid response format: missing or invalid data array'' None)))"

definition embeddings_url :: "LlamaCppEmbedding \<Rightarrow> string" where
  "embeddings_url a = this_host a @ ''/v1/embeddings''"

definition request_model :: "LlamaCppEmbedding \<Rightarrow> world \<Rightarrow> string" where
  "request_model a w = or_default_str (model (config a w)) ''embedding-model''"

subsection \<open>Dimension detection\<close>

definition detectDimension_try :: "env \<Rightarrow> string \<Rightarrow> LlamaCppEmbedding \<Rightarrow> world \<Rightarrow> (js_error + int) \<times> world" where
  "detectDimension_try e testText a w =
     (let processedText = preprocessText e (this_maxTokens a) testText;
          requestBody = \<lparr>input = Single processedText, body_model = request_model a w\<rparr>
      in case makeRequest e a w (embeddings_url a) requestBody of
           (Inl err, w') \<Rightarrow> (Inl err, w')
         | (Inr response, w') \<Rightarrow>
             (case firstEmbedding response of
                Inl err \<Rightarrow> (Inl err, w')
              | Inr embedding \<Rightarrow>
                  (let d = int (length embedding)
                   in if d \<le> 0
                      then (Inl (NetworkError (''Invalid embedding dimension: '' @ show_int d) None), w')
                      else (Inr d, w'))))"

definition detectDimension_catch :: "js_error \<Rightarrow> js_error" where
  "detectDimension_catch err =
     (if isNetworkError err \<or> isConfigurationError err then err
      else NetworkError (''Failed to detect embedding dimension: '' @
             (if instanceofError err then error_message err else ''Unknown error''))
             (if instanceofError err then Some err else None))"

definition detectDimension :: "env \<Rightarrow> string \<Rightarrow> LlamaCppEmbedding \<Rightarrow> world \<Rightarrow> (js_error + int) \<times> world" where
  "detectDimension e testText a w =
     (case detectDimension_try e testText a w of
        (Inl err, w') \<Rightarrow> (Inl (detectDimension_catch err), w')
      | (Inr d, w') \<Rightarrow> (Inr d, w'))"

definition ensureDimensionDetected :: "env \<Rightarrow> LlamaCppEmbedding \<Rightarrow> world \<Rightarrow> (js_error + unit) \<times> LlamaCppEmbedding \<times> world" where
  "ensureDimensionDetected e a w =
     (if \<not> this_dimensionDetected a \<and> \<not> truthy_num (dimension (config a w))
      then (case detectDimension e ''test'' a w of
              (Inl err, w') \<Rightarrow> (Inl err, a, w')
            | (Inr d, w') \<Rightarrow> (Inr (), a\<lparr>this_dimension := d, this_dimensionDetected := True\<rparr>, w'))
      else (Inr (), a, w))"

subsection \<open>Embedding\<close>

definition embed :: "env \<Rightarrow> string \<Rightarrow> LlamaCppEmbedding \<Rightarrow> world \<Rightarrow> (js_error + EmbeddingVector) \<times> LlamaCppEmbedding \<times> world" where
  "embed e t a w =
     (let processedText = preprocessTextForCode e a w t
      in case ensureDimensionDetected e a w of
           (Inl err, a1, w1) \<Rightarrow> (Inl err, a1, w1)
         | (Inr _, a1, w1) \<Rightarrow>
             (let requestBody = \<lparr>input = Single processedText, body_model = request_model a1 w1\<rparr>
              in case makeRequest e a1 w1 (embeddings_url a1) requestBody of
                   (Inl err, w2) \<Rightarrow> (Inl err, a1, w2)
                 | (Inr response, w2) \<Rightarrow>
                     (case firstEmbedding response of
                        Inl err \<Rightarrow> (Inl err, a1, w2)
                      | Inr embedding \<Rightarrow>
                          (Inr \<lparr>vector = embedding, vdimension = this_dimension a1\<rparr>, a1, w2))))"

text \<open>The callback of \<open>response.data.map\<close>, run over the items from \<open>index\<close> on: the first
  throw ends the loop.\<close>

fun map_items :: "int \<Rightarrow> nat \<Rightarrow> json list \<Rightarrow> js_error + EmbeddingVector list" where
  "map_items thisDimension index [] = Inr []"
| "map_items thisDimension index (item # items) =
     (if \<not> truthy (Some item) \<or> \<not> typeofObject (Some item)
      then Inl (NetworkError (''Invalid batch response format: invalid item at index '' @
                  show_nat index) None)
      else (case get_prop item ''embedding'' of
              Some (JArr embedding) \<Rightarrow>
                (case map_items thisDimension (Suc index) items of
                   Inl err \<Rightarrow> Inl err
                 | Inr vs \<Rightarrow> Inr (\<lparr>vector = embedding, vdimension = thisDimension\<rparr> # vs))
            | _ \<Rightarrow> Inl (NetworkError
                  (''Invalid batch response format: missing or invalid embedding at index '' @
                   show_nat index) None)))"

text \<open>The checks of \<open>embedBatch\<close> on the response (lines 264 to 289).\<close>

definition batchEmbeddings :: "int \<Rightarrow> json \<Rightarrow> js_error + EmbeddingVector list" where
  "batchEmbeddings thisDimension response =
     (if \<not> truthy (Some response) \<or> \<not> typeofObject (Some response)
      then Inl (NetworkError ''Invalid batch response format: expected object'' None)
      else (case get_prop response ''data'' of
              Some (JArr d) \<Rightarrow>
                if length d = 0
                then Inl (NetworkError ''Invalid batch response format: empty data array'' None)
                else map_items thisDimension 0 d
            | _ \<Rightarrow> Inl (NetworkError
                  ''Invalid batch response format: missing or invalid data array'' None)))"

definition embedBatch :: "env \<Rightarrow> string list \<Rightarrow> LlamaCppEmbedding \<Rightarrow> world \<Rightarrow> (js_error + EmbeddingVector list) \<times> LlamaCppEmbedding \<times> world" where
  "embedBatch e texts a w =
     (if length texts = 0
      then (Inl (ConfigurationError ''Texts array cannot be empty''), a, w)
      else (let processedTexts = map (preprocessTextForCode e a w) texts
            in case ensureDimensionDetected e a w of
                 (Inl err, a1, w1) \<Rightarrow> (Inl err, a1, w1)
               | (Inr _, a1, w1) \<Rightarrow>
                   (let requestBody = \<lparr>input = Batch processedTexts, body_model = request_model a1 w1\<rparr>
                    in case makeRequest e a1 w1 (embeddings_url a1) requestBody of
                         (Inl err, w2) \<Rightarrow> (Inl err, a1, w2)
                       | (Inr response, w2) \<Rightarrow> (batchEmbeddings (this_dimension a1) response, a1, w2))))"

subsection \<open>Accessors and mutators\<close>

definition getDimension :: "LlamaCppEmbedding \<Rightarrow> int" where
  "getDimension a = this_dimension a"

definition getProvider :: "LlamaCppEmbedding \<Rightarrow> string" where
  "getProvider a = ''LlamaCpp''"

definition getModel :: "LlamaCppEmbedding \<Rightarrow> world \<Rightarrow> string" where
  "getModel a w = or_default_str (model (config a w)) ''nomic-embed-code''"

definition setHost :: "env \<Rightarrow> string \<Rightarrow> LlamaCppEmbedding \<Rightarrow> world \<Rightarrow> (js_error + unit) \<times> LlamaCppEmbedding \<times> world" where
  "setHost e h a w =
     (case validateHostUrl e h of
        Inl err \<Rightarrow> (Inl err, a, w)
      | Inr _ \<Rightarrow> (Inr (), a\<lparr>this_host := normalizeHost h\<rparr>, set_config a (\<lambda>c. c\<lparr>host := Some h\<rparr>) w))"

definition setModel :: "env \<Rightarrow> string \<Rightarrow> LlamaCppEmbedding \<Rightarrow> world \<Rightarrow> (js_error + unit) \<times> LlamaCppEmbedding \<times> world" where
  "setModel e m a w =
     (if trim m = []
      then (Inl (ConfigurationError ''Model name cannot be empty''), a, w)
      else (let w1 = set_config a (\<lambda>c. c\<lparr>model := Some m\<rparr>) w;
                a1 = a\<lparr>this_dimensionDetected := False\<rparr>
            in if \<not> truthy_num (dimension (config a1 w1))
               then ensureDimensionDetected e a1 w1
               else (Inr (), a1, w1)))"

definition setCodePrefix :: "bool \<Rightarrow> LlamaCppEmbedding \<Rightarrow> world \<Rightarrow> (js_error + unit) \<times> LlamaCppEmbedding \<times> world" where
  "setCodePrefix enabled a w = (Inr (), a, set_config a (\<lambda>c. c\<lparr>codePrefix := Some enabled\<rparr>) w)"

definition setCustomCodePrefix :: "string \<Rightarrow> LlamaCppEmbedding \<Rightarrow> world \<Rightarrow> (js_error + unit) \<times> LlamaCppEmbedding \<times> world" where
  "setCustomCodePrefix p a w =
     (if trim p = []
      then (Inl (ConfigurationError ''Code prefix cannot be empty''), a, w)
      else (Inr (), a\<lparr>this_codePrefix := p\<rparr>, set_config a (\<lambda>c. c\<lparr>codePrefix := Some True\<rparr>) w))"

definition setTimeout :: "int \<Rightarrow> LlamaCppEmbedding \<Rightarrow> world \<Rightarrow> (js_error + unit) \<times> LlamaCppEmbedding \<times> world" where
  "setTimeout t a w =
     (if t \<le> 0
      then (Inl (ConfigurationError ''Timeout must be a positive number''), a, w)
      else if t > 600000
      then (Inl (ConfigurationError ''Timeout cannot exceed 600000ms (10 minutes)''), a, w)
      else (Inr (), a, set_config a (\<lambda>c. c\<lparr>timeout := Some t\<rparr>) w))"

text \<open>\<open>{ ...this.config }\<close>: a new object with the fields of the configuration; the result
  is its address.\<close>

definition getConfig :: "LlamaCppEmbedding \<Rightarrow> world \<Rightarrow> addr \<times> world" where
  "getConfig a w =
     (next_addr w, w\<lparr>store := (store w)(next_addr w := config a w), next_addr := Suc (next_addr w)\<rparr>)"

subsection \<open>Callers\<close>

text \<open>A caller of the public interface: one operation at a time, an exception caught as
  an outcome, on the adapter and world the operation before left behind.\<close>

datatype operation =
    Embed string
  | EmbedBatch "string list"
  | DetectDimension string
  | SetHost string
  | SetModel string
  | SetCodePrefix bool
  | SetCustomCodePrefix string
  | SetTimeout int
  | GetConfig
  | GetDimension
  | GetProvider
  | GetModel

datatype outcome =
    Threw js_error
  | Returned
  | ReturnedVector EmbeddingVector
  | ReturnedVectors "EmbeddingVector list"
  | ReturnedNumber int
  | ReturnedString string
  | ReturnedObject addr

fun outcome_of :: "('r \<Rightarrow> outcome) \<Rightarrow> js_error + 'r \<Rightarrow> outcome" where
  "outcome_of f (Inl err) = Threw err"
| "outcome_of f (Inr r) = f r"

fun perform :: "env \<Rightarrow> operation \<Rightarrow> LlamaCppEmbedding \<Rightarrow> world \<Rightarrow> outcome \<times> LlamaCppEmbedding \<times> world" where
  "perform e (Embed t) a w = (case embed e t a w of (r, a', w') \<Rightarrow> (outcome_of ReturnedVector r, a', w'))"
| "perform e (EmbedBatch ts) a w =
     (case embedBatch e ts a w of (r, a', w') \<Rightarrow> (outcome_of ReturnedVectors r, a', w'))"
| "perform e (DetectDimension t) a w =
     (case detectDimension e t a w of (r, w') \<Rightarrow> (outcome_of ReturnedNumber r, a, w'))"
| "perform e (SetHost h) a w =
     (case setHost e h a w of (r, a', w') \<Rightarrow> (outcome_of (\<lambda>_. Returned) r, a', w'))"
| "perform e (SetModel m) a w =
     (case setModel e m a w of (r, a', w') \<Rightarrow> (outcome_of (\<lambda>_. Returned) r, a', w'))"
| "perform e (SetCodePrefix b) a w =
     (case setCodePrefix b a w of (r, a', w') \<Rightarrow> (outcome_of (\<lambda>_. Returned) r, a', w'))"
| "perform e (SetCustomCodePrefix p) a w =
     (case setCustomCodePrefix p a w of (r, a', w') \<Rightarrow> (outcome_of (\<lambda>_. Returned) r, a', w'))"
| "perform e (SetTimeout t) a w =
     (case setTimeout t a w of (r, a', w') \<Rightarrow> (outcome_of (\<lambda>_. Returned) r, a', w'))"
| "perform e GetConfig a w = (case getConfig a w of (r, w') \<Rightarrow> (ReturnedObject r, a, w'))"
| "perform e GetDimension a w = (ReturnedNumber (getDimension a), a, w)"
| "perform e GetProvider a w = (ReturnedString (getProvider a), a, w)"
| "perform e GetModel a w = (ReturnedString (getModel a w), a, w)"

fun run :: "env \<Rightarrow> operation list \<Rightarrow> LlamaCppEmbedding \<Rightarrow> world \<Rightarrow> outcome list \<times> LlamaCppEmbedding \<times> world" where
  "run e [] a w = ([], a, w)"
| "run e (op # ops) a w =
     (case perform e op a w of
        (r, a', w') \<Rightarrow> (case run e ops a' w' of (rs, a'', w'') \<Rightarrow> (r # rs, a'', w'')))"

fun isSetModel :: "operation \<Rightarrow> bool" where
  "isSetModel (SetModel _) = True"
| "isSetModel _ = False"

text \<open>The call of \<open>fetch\<close> that the adapter makes for a given \<open>input\<close>: the URL, the model
  name and the timer are read from the adapter and its configuration.\<close>

definition sent :: "LlamaCppEmbedding \<Rightarrow> world \<Rightarrow> request_input \<Rightarrow> request" where
  "sent a w i = \<lparr>url = embeddings_url a, body = \<lparr>input = i, body_model = request_model a w\<rparr>,
                 abort_after = or_default_num (timeout (config a w)) 30000\<rparr>"

subsection \<open>A concrete setting\<close>

text \<open>An environment to evaluate the operations in: a hook that leaves the text as it is,
  a URL parser that knows the two schemes, and a server that answers every request with
  one embedding of length three.\<close>

definition emptyConfig :: LlamaCppEmbeddingConfig where
  "emptyConfig = \<lparr>host = None, model = None, codePrefix = None, dimension = None,
                   maxTokens = None, timeout = None\<rparr>"

definition okResponse :: "json \<Rightarrow> http_response" where
  "okResponse j = \<lparr>ok = True, status = 200, statusText = ''OK'', response_text = Inr [],
                    response_json = Inr j\<rparr>"

definition oneEmbedding :: json where
  "oneEmbedding = JObj [(''data'', JArr [JObj [(''embedding'', JArr [JNum 1, JNum 2, JNum 3])]])]"

definition exampleEnv :: env where
  "exampleEnv =
     \<lparr>URL_protocol = (\<lambda>h. if startsWith h ''http://'' then Some ''http:''
                           else if startsWith h ''https://'' then Some ''https:''
                           else if startsWith h ''ftp://'' then Some ''ftp:'' else None),
      preprocessText = (\<lambda>_ t. t),
      fetch = (\<lambda>_ _. Inr (okResponse oneEmbedding))\<rparr>"

definition freshAdapter :: LlamaCppEmbedding where
  "freshAdapter = \<lparr>this_config = 0, this_dimension = 768, this_dimensionDetected = False,
                    this_maxTokens = 8192, this_host = ''http://localhost:8080'',
                    this_codePrefix = ''Represent this query for searching relevant code:''\<rparr>"

definition worldWith :: "LlamaCppEmbeddingConfig \<Rightarrow> world" where
  "worldWith c = \<lparr>store = (\<lambda>_. emptyConfig)(0 := c), next_addr = 1, requests = []\<rparr>"

subsection \<open>Specification-side definitions\<close>

text \<open>The prefixing rule in the specification's words: the text itself when it starts
  with the prefix, the prefix, one space and the text otherwise.\<close>

definition spec_prefixed :: "string \<Rightarrow> string \<Rightarrow> string" where
  "spec_prefixed pre t = (if startsWith t pre then t else pre @ '' '' @ t)"

definition prefixOnWorld :: world where
  "prefixOnWorld = worldWith (emptyConfig\<lparr>codePrefix := Some True\<rparr>)"

text \<open>The two error classes of the module, and the context a wrapping error keeps.\<close>

definition isAdapterError :: "js_error \<Rightarrow> bool" where
  "isAdapterError err = (isNetworkError err \<or> isConfigurationError err)"

definition originalError :: "js_error \<Rightarrow> js_error option" where
  "originalError err = (if instanceofError err then Some err else None)"

text \<open>A server that never answers in time, and one that refuses the request.\<close>

definition abortingEnv :: env where
  "abortingEnv = exampleEnv\<lparr>fetch := (\<lambda>_ _. Inl (JsError ''AbortError'' ''This operation was aborted''))\<rparr>"

definition refusingEnv :: env where
  "refusingEnv = exampleEnv\<lparr>fetch := (\<lambda>_ _. Inr \<lparr>ok = False, status = 503,
      statusText = ''Service Unavailable'', response_text = Inr ''loading model'',
      response_json = Inl (JsError ''SyntaxError'' ''Unexpected token'')\<rparr>)\<rparr>"

definition testBody :: request_body where
  "testBody = \<lparr>input = Single ''test'', body_model = ''embedding-model''\<rparr>"

text \<open>The adapter after a detection against the example server.\<close>

definition detectedAdapter :: LlamaCppEmbedding where
  "detectedAdapter = freshAdapter\<lparr>this_dimension := 3, this_dimensionDetected := True\<rparr>"

text \<open>An adapter holding a dimension detected for an earlier model, and the world after
  the model name is replaced.\<close>

definition staleAdapter :: LlamaCppEmbedding where
  "staleAdapter = freshAdapter\<lparr>this_dimension := 5, this_dimensionDetected := True\<rparr>"

definition renamedWorld :: world where
  "renamedWorld = set_config staleAdapter (\<lambda>c. c\<lparr>model := Some ''new-model''\<rparr>) prefixOnWorld"

text \<open>A response element in the specification's words: valid when it has an
  \<open>embedding\<close> array; the first invalid element of a list; the error the callback throws
  for an element at an index. A server whose batch response has a valid element, one with
  a string for its embedding, and a missing one.\<close>

definition validItem :: "json \<Rightarrow> bool" where
  "validItem item = isArray (get_prop item ''embedding'')"

definition itemEmbedding :: "json \<Rightarrow> json list" where
  "itemEmbedding item = (case get_prop item ''embedding'' of Some (JArr emb) \<Rightarrow> emb | _ \<Rightarrow> [])"

definition firstInvalid :: "json list \<Rightarrow> nat" where
  "firstInvalid items = length (takeWhile validItem items)"

definition itemError :: "nat \<Rightarrow> json \<Rightarrow> js_error" where
  "itemError index item =
     NetworkError ((if truthy (Some item) \<and> typeofObject (Some item)
                    then ''Invalid batch response format: missing or invalid embedding at index ''
                    else ''Invalid batch response format: invalid item at index '') @
                   show_nat index) None"

definition mixedBatch :: json where
  "mixedBatch = JObj [(''data'', JArr [JObj [(''embedding'', JArr [JNum 1])],
                                       JObj [(''embedding'', JStr ''none'')],
                                       JNull])]"

definition mixedEnv :: env where
  "mixedEnv = exampleEnv\<lparr>fetch := (\<lambda>_ _. Inr (okResponse mixedBatch))\<rparr>"


text \<open>Two worlds that differ at most in the object at one address.\<close>

definition same_except :: "addr \<Rightarrow> world \<Rightarrow> world \<Rightarrow> bool" where
  "same_except r w v =
     ((\<forall>x. x \<noteq> r \<longrightarrow> store w x = store v x) \<and> next_addr w = next_addr v \<and> requests w = requests v)"


text \<open>The example world after \<open>getConfig\<close>, and what a caller may write into the copy.\<close>

definition copiedWorld :: world where
  "copiedWorld = \<lparr>store = (\<lambda>_. emptyConfig)(0 := emptyConfig\<lparr>codePrefix := Some True\<rparr>,
                                             1 := emptyConfig\<lparr>codePrefix := Some True\<rparr>),
                  next_addr = 2, requests = []\<rparr>"

definition tamperedConfig :: LlamaCppEmbeddingConfig where
  "tamperedConfig = emptyConfig\<lparr>model := Some ''changed'', codePrefix := Some False,
                                timeout := Some 1\<rparr>"


text \<open>A preprocessing hook that does more than return its argument: the empty text becomes
  one space, and a text longer than four characters per token of \<open>maxTokens\<close> is cut to
  that length. An adapter constructed with \<open>maxTokens\<close> 2.\<close>

definition truncatingHook :: "int \<Rightarrow> string \<Rightarrow> string" where
  "truncatingHook maxTok t =
     (if t = [] then '' ''
      else if int (length t) > maxTok * 4 then take (nat (maxTok * 4)) t
      else t)"

definition truncatingEnv :: env where
  "truncatingEnv = exampleEnv\<lparr>preprocessText := truncatingHook\<rparr>"

definition smallAdapter :: LlamaCppEmbedding where
  "smallAdapter = freshAdapter\<lparr>this_maxTokens := 2\<rparr>"


section \<open>Properties\<close>

lemmas setting_defs = exampleEnv_def freshAdapter_def worldWith_def emptyConfig_def okResponse_def
  oneEmbedding_def

lemmas request_defs = config_def request_model_def embeddings_url_def makeRequest_def
  makeRequest_try_def makeRequest_catch_def firstEmbedding_def detectDimension_def
  detectDimension_try_def detectDimension_catch_def ensureDimensionDetected_def Let_def

subsection \<open>What a call leaves in the world\<close>

lemma makeRequest_try_world:
  "makeRequest_try e a w u b = (r, w') \<Longrightarrow>
   w' = w\<lparr>requests := requests w @
          [\<lparr>url = u, body = b, abort_after = or_default_num (timeout (config a w)) 30000\<rparr>]\<rparr>"
  by (auto simp: makeRequest_try_def Let_def split: sum.splits if_splits)

lemma makeRequest_world:
  "makeRequest e a w u b = (r, w') \<Longrightarrow>
   w' = w\<lparr>requests := requests w @
          [\<lparr>url = u, body = b, abort_after = or_default_num (timeout (config a w)) 30000\<rparr>]\<rparr>"
  by (auto simp: makeRequest_def split: prod.splits sum.splits dest: makeRequest_try_world)

lemma detectDimension_world:
  "detectDimension e t a w = (r, w') \<Longrightarrow>
   w' = w\<lparr>requests := requests w @ [sent a w (Single (preprocessText e (this_maxTokens a) t))]\<rparr>"
  by (auto simp: detectDimension_def detectDimension_try_def sent_def Let_def
      split: prod.splits sum.splits if_splits dest: makeRequest_world)

lemma sent_cong:
  "store w1 = store w \<Longrightarrow> this_config a1 = this_config a \<Longrightarrow> this_host a1 = this_host a \<Longrightarrow>
   sent a1 w1 i = sent a w i"
  by (simp add: sent_def embeddings_url_def request_model_def config_def)

lemma embed_after_ensure:
  assumes "ensureDimensionDetected e a w = (Inr u, a1, w1)"
  shows "\<exists>r w2. embed e t a w = (r, a1, w2) \<and>
           requests w2 = requests w1 @ [sent a1 w1 (Single (preprocessTextForCode e a w t))]"
proof -
  obtain r w2 where m: "makeRequest e a1 w1 (embeddings_url a1)
      \<lparr>input = Single (preprocessTextForCode e a w t), body_model = request_model a1 w1\<rparr> = (r, w2)"
    by (cases "makeRequest e a1 w1 (embeddings_url a1)
      \<lparr>input = Single (preprocessTextForCode e a w t), body_model = request_model a1 w1\<rparr>")
  from makeRequest_world[OF m]
  have "requests w2 = requests w1 @ [sent a1 w1 (Single (preprocessTextForCode e a w t))]"
    by (simp add: sent_def)
  with assms m show ?thesis
    by (cases r) (auto simp: embed_def Let_def split: sum.splits)
qed

lemma embedBatch_after_ensure:
  assumes "ensureDimensionDetected e a w = (Inr u, a1, w1)" "ts \<noteq> []"
  shows "\<exists>r w2. embedBatch e ts a w = (r, a1, w2) \<and>
           requests w2 = requests w1 @ [sent a1 w1 (Batch (map (preprocessTextForCode e a w) ts))]"
proof -
  obtain r w2 where m: "makeRequest e a1 w1 (embeddings_url a1)
      \<lparr>input = Batch (map (preprocessTextForCode e a w) ts), body_model = request_model a1 w1\<rparr> = (r, w2)"
    by (cases "makeRequest e a1 w1 (embeddings_url a1)
      \<lparr>input = Batch (map (preprocessTextForCode e a w) ts), body_model = request_model a1 w1\<rparr>")
  from makeRequest_world[OF m]
  have "requests w2 = requests w1 @ [sent a1 w1 (Batch (map (preprocessTextForCode e a w) ts))]"
    by (simp add: sent_def)
  with assms m show ?thesis
    by (cases r) (auto simp: embedBatch_def Let_def split: sum.splits)
qed

subsection \<open>Code prefixing\<close>

lemma preprocessTextForCode_enabled:
  "codePrefix (config a w) = Some True \<Longrightarrow>
   preprocessTextForCode e a w t =
     spec_prefixed (this_codePrefix a) (preprocessText e (this_maxTokens a) t)"
  by (simp add: preprocessTextForCode_def spec_prefixed_def Let_def)

text \<open>
  Claim C1, as amended. With automatic code prefixing enabled, the text that \<open>embed\<close> and
  every element of \<open>embedBatch\<close> put into the request is the text as the base class's
  \<open>preprocessText\<close> hook returns it when that already starts with the configured prefix,
  and the prefix, one space and that text otherwise; so the prefix is never added to a
  processed text that already starts with it. The request is the one made once the
  dimension is known. The test and the concatenation of lines 187 to 191 are on the hook's
  result, not on the argument of \<open>embed\<close>: where the hook changes the text, what is sent
  is not the prefixing of the original text (the counterexample below).
\<close>

theorem prefix_added_unless_present:
  assumes "codePrefix (config a w) = Some True"
      and "ensureDimensionDetected e a w = (Inr u, a1, w1)"
  shows "preprocessTextForCode e a w t =
           spec_prefixed (this_codePrefix a) (preprocessText e (this_maxTokens a) t)
       \<and> (\<exists>r w2. embed e t a w = (r, a1, w2) \<and>
             requests w2 = requests w1 @
               [sent a1 w1 (Single (spec_prefixed (this_codePrefix a)
                                      (preprocessText e (this_maxTokens a) t)))])
       \<and> (ts = [] \<or> (\<exists>r w2. embedBatch e ts a w = (r, a1, w2) \<and>
             requests w2 = requests w1 @
               [sent a1 w1 (Batch (map (\<lambda>t. spec_prefixed (this_codePrefix a)
                                      (preprocessText e (this_maxTokens a) t)) ts))]))"
proof -
  have pp: "preprocessTextForCode e a w =
      (\<lambda>t. spec_prefixed (this_codePrefix a) (preprocessText e (this_maxTokens a) t))"
    by (rule ext) (rule preprocessTextForCode_enabled[OF assms(1)])
  show ?thesis
    using embed_after_ensure[OF assms(2), of t] embedBatch_after_ensure[OF assms(2), of ts]
    by (cases "ts = []") (simp_all add: pp)
qed

theorem prefix_added_unless_present_witness:
  "codePrefix (config freshAdapter prefixOnWorld) = Some True
   \<and> ensureDimensionDetected exampleEnv freshAdapter prefixOnWorld =
       (Inr (), freshAdapter\<lparr>this_dimension := 3, this_dimensionDetected := True\<rparr>,
        prefixOnWorld\<lparr>requests := [sent freshAdapter prefixOnWorld (Single ''test'')]\<rparr>)
   \<and> preprocessTextForCode exampleEnv freshAdapter prefixOnWorld ''foo'' =
       ''Represent this query for searching relevant code: foo''
   \<and> preprocessTextForCode exampleEnv freshAdapter prefixOnWorld
        ''Represent this query for searching relevant code: foo'' =
       ''Represent this query for searching relevant code: foo''
   \<and> (\<exists>r a' w'. embedBatch exampleEnv [''foo'', ''Represent this query for searching relevant code:'']
          freshAdapter prefixOnWorld = (r, a', w')
        \<and> input (body (last (requests w'))) =
            Batch [''Represent this query for searching relevant code: foo'',
                   ''Represent this query for searching relevant code:''])
   \<and> ensureDimensionDetected truncatingEnv freshAdapter prefixOnWorld =
       (Inr (), freshAdapter\<lparr>this_dimension := 3, this_dimensionDetected := True\<rparr>,
        prefixOnWorld\<lparr>requests := [sent freshAdapter prefixOnWorld (Single ''test'')]\<rparr>)
   \<and> preprocessText truncatingEnv (this_maxTokens freshAdapter) [] = '' ''
   \<and> preprocessTextForCode truncatingEnv freshAdapter prefixOnWorld [] =
       ''Represent this query for searching relevant code:  ''
   \<and> (\<exists>r a' w'. embed truncatingEnv [] freshAdapter prefixOnWorld = (r, a', w')
        \<and> input (body (last (requests w'))) =
            Single ''Represent this query for searching relevant code:  '')"
proof -
  let ?a1 = "freshAdapter\<lparr>this_dimension := 3, this_dimensionDetected := True\<rparr>"
  let ?w1 = "prefixOnWorld\<lparr>requests := [sent freshAdapter prefixOnWorld (Single ''test'')]\<rparr>"
  have h1: "codePrefix (config freshAdapter prefixOnWorld) = Some True"
    by (simp add: prefixOnWorld_def setting_defs config_def)
  have h2: "ensureDimensionDetected exampleEnv freshAdapter prefixOnWorld = (Inr (), ?a1, ?w1)"
    by (simp add: prefixOnWorld_def setting_defs request_defs sent_def)
  have h3: "ensureDimensionDetected truncatingEnv freshAdapter prefixOnWorld = (Inr (), ?a1, ?w1)"
    by (simp add: prefixOnWorld_def truncatingEnv_def truncatingHook_def setting_defs request_defs
        sent_def)
  have k: "preprocessText truncatingEnv (this_maxTokens freshAdapter) [] = '' ''"
    by (simp add: truncatingEnv_def truncatingHook_def)
  have c1: "preprocessTextForCode exampleEnv freshAdapter prefixOnWorld ''foo'' =
       ''Represent this query for searching relevant code: foo''"
    using prefix_added_unless_present[OF h1 h2, of "''foo''" "[]"]
    by (simp add: spec_prefixed_def startsWith_def setting_defs)
  have c2: "preprocessTextForCode exampleEnv freshAdapter prefixOnWorld
        ''Represent this query for searching relevant code: foo'' =
       ''Represent this query for searching relevant code: foo''"
    using prefix_added_unless_present[OF h1 h2,
        of "''Represent this query for searching relevant code: foo''" "[]"]
    by (simp add: spec_prefixed_def startsWith_def setting_defs)
  have c3: "\<exists>r a' w'. embedBatch exampleEnv
          [''foo'', ''Represent this query for searching relevant code:'']
          freshAdapter prefixOnWorld = (r, a', w')
        \<and> input (body (last (requests w'))) =
            Batch [''Represent this query for searching relevant code: foo'',
                   ''Represent this query for searching relevant code:'']"
    using prefix_added_unless_present[OF h1 h2, of "''foo''"
        "[''foo'', ''Represent this query for searching relevant code:'']"]
    by (auto simp: spec_prefixed_def startsWith_def setting_defs sent_def)
  have sp: "spec_prefixed (this_codePrefix freshAdapter) '' '' =
       ''Represent this query for searching relevant code:  ''"
    by (simp add: spec_prefixed_def startsWith_def freshAdapter_def)
  note T = prefix_added_unless_present[OF h1 h3, of "[]" "[]", unfolded k sp]
  from T have c4: "preprocessTextForCode truncatingEnv freshAdapter prefixOnWorld [] =
       ''Represent this query for searching relevant code:  ''"
    by blast
  from T have c5: "\<exists>r a' w'. embed truncatingEnv [] freshAdapter prefixOnWorld = (r, a', w')
        \<and> input (body (last (requests w'))) =
            Single ''Represent this query for searching relevant code:  ''"
    by (auto simp: sent_def)
  show ?thesis using h1 h2 c1 c2 c3 h3 k c4 c5 by blast
qed

text \<open>
  The claim in its own words, with the original text in place of the hook's result, does
  not hold. With the hook above and prefixing enabled, \<open>embed\<close> of the empty text sends
  the prefix and two spaces where the prefixing of the empty text is the prefix and one
  space; and on an adapter with \<open>maxTokens\<close> 2 a text that already starts with the prefix
  is cut to \<open>Represen\<close> by the hook and is sent with the prefix before it, not as it
  was.
\<close>

lemmas truncating_defs = truncatingEnv_def truncatingHook_def smallAdapter_def

theorem prefix_of_original_text_counterexample:
  "codePrefix (config freshAdapter prefixOnWorld) = Some True
   \<and> spec_prefixed (this_codePrefix freshAdapter) [] =
       ''Represent this query for searching relevant code: ''
   \<and> preprocessTextForCode truncatingEnv freshAdapter prefixOnWorld [] =
       ''Represent this query for searching relevant code:  ''
   \<and> fst (embed truncatingEnv [] freshAdapter prefixOnWorld) =
       Inr \<lparr>vector = [JNum 1, JNum 2, JNum 3], vdimension = 3\<rparr>
   \<and> map (\<lambda>q. input (body q)) (requests (snd (snd (embed truncatingEnv [] freshAdapter prefixOnWorld)))) =
       [Single ''test'', Single ''Represent this query for searching relevant code:  '']
   \<and> preprocessTextForCode truncatingEnv freshAdapter prefixOnWorld [] \<noteq>
       spec_prefixed (this_codePrefix freshAdapter) []
   \<and> codePrefix (config smallAdapter prefixOnWorld) = Some True
   \<and> startsWith ''Represent this query for searching relevant code: foo''
        (this_codePrefix smallAdapter)
   \<and> spec_prefixed (this_codePrefix smallAdapter)
        ''Represent this query for searching relevant code: foo'' =
       ''Represent this query for searching relevant code: foo''
   \<and> preprocessTextForCode truncatingEnv smallAdapter prefixOnWorld
        ''Represent this query for searching relevant code: foo'' =
       ''Represent this query for searching relevant code: Represen''
   \<and> preprocessTextForCode truncatingEnv smallAdapter prefixOnWorld
        ''Represent this query for searching relevant code: foo'' \<noteq>
       spec_prefixed (this_codePrefix smallAdapter)
        ''Represent this query for searching relevant code: foo''"
proof -
  have h1: "codePrefix (config freshAdapter prefixOnWorld) = Some True"
    by (simp add: prefixOnWorld_def setting_defs config_def)
  have h2: "codePrefix (config smallAdapter prefixOnWorld) = Some True"
    by (simp add: prefixOnWorld_def setting_defs config_def smallAdapter_def)
  have s1: "spec_prefixed (this_codePrefix freshAdapter) [] =
       ''Represent this query for searching relevant code: ''"
    by (simp add: spec_prefixed_def startsWith_def freshAdapter_def)
  have p1: "preprocessTextForCode truncatingEnv freshAdapter prefixOnWorld [] =
       ''Represent this query for searching relevant code:  ''"
    using preprocessTextForCode_enabled[OF h1, of truncatingEnv "[]"]
    by (simp add: spec_prefixed_def startsWith_def truncating_defs exampleEnv_def freshAdapter_def)
  have e1: "embed truncatingEnv [] freshAdapter prefixOnWorld =
      (Inr \<lparr>vector = [JNum 1, JNum 2, JNum 3], vdimension = 3\<rparr>, detectedAdapter,
       prefixOnWorld\<lparr>requests := [sent freshAdapter prefixOnWorld (Single ''test''),
          sent freshAdapter prefixOnWorld
            (Single ''Represent this query for searching relevant code:  '')]\<rparr>)"
    by (simp add: detectedAdapter_def prefixOnWorld_def truncating_defs setting_defs request_defs
        embed_def preprocessTextForCode_def startsWith_def sent_def)
  have st: "startsWith ''Represent this query for searching relevant code: foo''
        (this_codePrefix smallAdapter)"
    by (simp add: startsWith_def smallAdapter_def freshAdapter_def)
  have s2: "spec_prefixed (this_codePrefix smallAdapter)
        ''Represent this query for searching relevant code: foo'' =
       ''Represent this query for searching relevant code: foo''"
    using st by (simp add: spec_prefixed_def)
  have p2: "preprocessTextForCode truncatingEnv smallAdapter prefixOnWorld
        ''Represent this query for searching relevant code: foo'' =
       ''Represent this query for searching relevant code: Represen''"
    using preprocessTextForCode_enabled[OF h2, of truncatingEnv
        "''Represent this query for searching relevant code: foo''"]
    by (simp add: spec_prefixed_def startsWith_def truncating_defs exampleEnv_def freshAdapter_def)
  have n1: "preprocessTextForCode truncatingEnv freshAdapter prefixOnWorld [] \<noteq>
       spec_prefixed (this_codePrefix freshAdapter) []"
    unfolding p1 s1 by simp
  have n2: "preprocessTextForCode truncatingEnv smallAdapter prefixOnWorld
        ''Represent this query for searching relevant code: foo'' \<noteq>
       spec_prefixed (this_codePrefix smallAdapter)
        ''Represent this query for searching relevant code: foo''"
    unfolding p2 s2 by simp
  have m1: "map (\<lambda>q. input (body q)) (requests (snd (snd (embed truncatingEnv [] freshAdapter prefixOnWorld)))) =
       [Single ''test'', Single ''Represent this query for searching relevant code:  '']"
    unfolding e1 by (simp add: sent_def)
  have f1: "fst (embed truncatingEnv [] freshAdapter prefixOnWorld) =
       Inr \<lparr>vector = [JNum 1, JNum 2, JNum 3], vdimension = 3\<rparr>"
    unfolding e1 by simp
  show ?thesis using h1 s1 p1 f1 m1 n1 h2 st s2 p2 n2 by blast
qed

subsection \<open>Construction\<close>

text \<open>
  Claim C2. A dimension override that is present and not positive should make construction
  fail with a configuration error. Evaluated on the code: an override of zero is taken as
  "not provided" by the truthiness guard, so construction succeeds with the default
  dimension 768 and nothing detected; only a negative override is refused.
\<close>

theorem zero_dimension_accepted:
  "constructor exampleEnv (Some 0) (worldWith (emptyConfig\<lparr>dimension := Some 0\<rparr>)) =
     (Inr freshAdapter, worldWith (emptyConfig\<lparr>dimension := Some 0, codePrefix := Some True\<rparr>))
   \<and> fst (constructor exampleEnv (Some 0) (worldWith (emptyConfig\<lparr>dimension := Some (- 1)\<rparr>))) =
     Inl (ConfigurationError ''Dimension must be a positive number'')"
  by (simp add: constructor_def validateConfig_def setting_defs normalizeHost_def)


text \<open>
  Claim C3. The timeout should be capped at 600000 ms wherever it is accepted. Evaluated on
  the code: construction validates only that the timeout is positive, so a timeout of
  700000 ms is stored and used for the abort timer of every request, while \<open>setTimeout\<close>
  refuses the same number.
\<close>

theorem constructor_accepts_long_timeout:
  "constructor exampleEnv (Some 0) (worldWith (emptyConfig\<lparr>timeout := Some 700000\<rparr>)) =
     (Inr freshAdapter, worldWith (emptyConfig\<lparr>timeout := Some 700000, codePrefix := Some True\<rparr>))
   \<and> abort_after (sent freshAdapter
        (worldWith (emptyConfig\<lparr>timeout := Some 700000, codePrefix := Some True\<rparr>)) i) = 700000
   \<and> fst (setTimeout 700000 freshAdapter (worldWith emptyConfig)) =
        Inl (ConfigurationError ''Timeout cannot exceed 600000ms (10 minutes)'')"
  by (simp add: constructor_def validateConfig_def setting_defs normalizeHost_def sent_def
      config_def setTimeout_def)

lemma constructor_success:
  assumes "constructor e (Some r) w = (Inr a, w')"
  shows "this_config a = r"
    and "store w' = (store w)(r := (if codePrefix (store w r) = None
                                    then (store w r)\<lparr>codePrefix := Some True\<rparr> else store w r))"
    and "requests w' = requests w" and "next_addr w' = next_addr w"
proof -
  have *: "set_dimension_if_provided d x = Inr y \<Longrightarrow> this_config y = this_config x" for d x y
    by (cases d) (auto split: if_splits)
  have **: "set_maxTokens_if_provided d x = Inr y \<Longrightarrow> this_config y = this_config x" for d x y
    by (cases d) (auto split: if_splits)
  from assms show "this_config a = r"
    by (auto simp: constructor_def Let_def split: sum.splits dest!: * **)
  from assms show "store w' = (store w)(r := (if codePrefix (store w r) = None
                                    then (store w r)\<lparr>codePrefix := Some True\<rparr> else store w r))"
    by (auto simp: constructor_def Let_def split: sum.splits if_splits)
  from assms show "requests w' = requests w" "next_addr w' = next_addr w"
    by (auto simp: constructor_def Let_def split: sum.splits if_splits)
qed


text \<open>
  Claim C9. A successful construction keeps the caller's configuration object itself (its
  address) and, when \<open>codePrefix\<close> is unspecified there, writes \<open>codePrefix = true\<close>
  into it; whatever the caller writes into the object afterwards is what the adapter
  reads, so the model name it reports and the prefixing of a text follow such a write.
\<close>

theorem constructor_keeps_callers_object:
  assumes "constructor e (Some r) w = (Inr a, w')"
  shows "this_config a = r
       \<and> (codePrefix (store w r) = None \<longrightarrow>
            store w' r = (store w r)\<lparr>codePrefix := Some True\<rparr> \<and> store w' r \<noteq> store w r)
       \<and> (\<forall>c. config a (w'\<lparr>store := (store w')(r := c)\<rparr>) = c)
       \<and> (m \<noteq> [] \<longrightarrow>
            getModel a (w'\<lparr>store := (store w')(r := (store w' r)\<lparr>model := Some m\<rparr>)\<rparr>) = m)
       \<and> preprocessTextForCode e a
            (w'\<lparr>store := (store w')(r := (store w' r)\<lparr>codePrefix := Some False\<rparr>)\<rparr>) t =
          preprocessText e (this_maxTokens a) t"
proof -
  note c = constructor_success[OF assms]
  have "codePrefix (store w r) = None \<Longrightarrow> store w' r \<noteq> store w r"
  proof
    assume n: "codePrefix (store w r) = None" and "store w' r = store w r"
    then have "codePrefix (store w' r) = None" by simp
    with n c(2) show False by simp
  qed
  then show ?thesis using c
    by (simp add: config_def getModel_def preprocessTextForCode_def)
qed


theorem constructor_keeps_callers_object_witness:
  "constructor exampleEnv (Some 0) (worldWith emptyConfig) = (Inr freshAdapter, prefixOnWorld)
   \<and> this_config freshAdapter = 0
   \<and> store prefixOnWorld 0 = emptyConfig\<lparr>codePrefix := Some True\<rparr>
   \<and> store prefixOnWorld 0 \<noteq> store (worldWith emptyConfig) 0
   \<and> getModel freshAdapter prefixOnWorld = ''nomic-embed-code''
   \<and> getModel freshAdapter
        (prefixOnWorld\<lparr>store := (store prefixOnWorld)(0 := (store prefixOnWorld 0)\<lparr>model := Some ''other''\<rparr>)\<rparr>)
       = ''other''
   \<and> preprocessTextForCode exampleEnv freshAdapter prefixOnWorld ''foo'' =
       ''Represent this query for searching relevant code: foo''
   \<and> preprocessTextForCode exampleEnv freshAdapter
        (prefixOnWorld\<lparr>store := (store prefixOnWorld)(0 := (store prefixOnWorld 0)\<lparr>codePrefix := Some False\<rparr>)\<rparr>)
        ''foo'' = ''foo''"
proof -
  have h: "constructor exampleEnv (Some 0) (worldWith emptyConfig) = (Inr freshAdapter, prefixOnWorld)"
    by (simp add: constructor_def validateConfig_def setting_defs normalizeHost_def prefixOnWorld_def)
  have n: "codePrefix (store (worldWith emptyConfig) 0) = None"
    by (simp add: setting_defs)
  have b1: "getModel freshAdapter prefixOnWorld = ''nomic-embed-code''"
    by (simp add: getModel_def config_def prefixOnWorld_def setting_defs)
  have b2: "preprocessTextForCode exampleEnv freshAdapter prefixOnWorld ''foo'' =
       ''Represent this query for searching relevant code: foo''"
    by (simp add: preprocessTextForCode_def config_def prefixOnWorld_def setting_defs startsWith_def)
  from constructor_keeps_callers_object[OF h, of "''other''" "''foo''"] n
  have c: "this_config freshAdapter = 0"
    "store prefixOnWorld 0 = (store (worldWith emptyConfig) 0)\<lparr>codePrefix := Some True\<rparr>"
    "store prefixOnWorld 0 \<noteq> store (worldWith emptyConfig) 0"
    "getModel freshAdapter
        (prefixOnWorld\<lparr>store := (store prefixOnWorld)(0 := (store prefixOnWorld 0)\<lparr>model := Some ''other''\<rparr>)\<rparr>)
       = ''other''"
    "preprocessTextForCode exampleEnv freshAdapter
        (prefixOnWorld\<lparr>store := (store prefixOnWorld)(0 := (store prefixOnWorld 0)\<lparr>codePrefix := Some False\<rparr>)\<rparr>)
        ''foo'' = preprocessText exampleEnv (this_maxTokens freshAdapter) ''foo''"
    by blast+
  have s: "store (worldWith emptyConfig) 0 = emptyConfig" by (simp add: worldWith_def)
  have p: "preprocessText exampleEnv (this_maxTokens freshAdapter) ''foo'' = ''foo''"
    by (simp add: exampleEnv_def)
  show ?thesis using h b1 b2 c s p by simp
qed

subsection \<open>Errors of the request path\<close>

lemma isAdapterError_NetworkError [simp]: "isAdapterError (NetworkError m c)"
  by (simp add: isAdapterError_def NetworkError_def)

lemma isAdapterError_ConfigurationError [simp]: "isAdapterError (ConfigurationError m)"
  by (simp add: isAdapterError_def ConfigurationError_def)

lemma makeRequest_catch_passes: "isAdapterError err \<Longrightarrow> makeRequest_catch a w err = err"
  by (simp add: makeRequest_catch_def isAdapterError_def)

lemma makeRequest_catch_wraps:
  "\<not> isAdapterError err \<Longrightarrow> \<exists>m. makeRequest_catch a w err = NetworkError m (originalError err)"
  by (cases err) (auto simp: makeRequest_catch_def isAdapterError_def originalError_def)

lemma makeRequest_error: "makeRequest e a w u b = (Inl err, w') \<Longrightarrow> isAdapterError err"
  using makeRequest_catch_wraps[of _ a w] makeRequest_catch_passes[of _ a w]
  by (auto simp: makeRequest_def split: prod.splits sum.splits) (metis isAdapterError_NetworkError)

lemma firstEmbedding_error: "firstEmbedding j = Inl err \<Longrightarrow> isAdapterError err"
  by (auto simp: firstEmbedding_def split: if_splits option.splits json.splits list.splits)

lemma detectDimension_try_error:
  "detectDimension_try e t a w = (Inl err, w') \<Longrightarrow> isAdapterError err"
  by (auto simp: detectDimension_try_def Let_def split: prod.splits sum.splits if_splits
      dest: makeRequest_error firstEmbedding_error)

lemma detectDimension_catch_passes: "isAdapterError err \<Longrightarrow> detectDimension_catch err = err"
  by (simp add: detectDimension_catch_def isAdapterError_def)

lemma detectDimension_error: "detectDimension e t a w = (Inl err, w') \<Longrightarrow> isAdapterError err"
  by (auto simp: detectDimension_def split: prod.splits sum.splits
      dest!: detectDimension_try_error simp: detectDimension_catch_passes)


text \<open>
  Claim C7. A failure leaving the \<open>try\<close> block of \<open>makeRequest\<close> that is already a
  configuration or network error of the module is rethrown as it is; any other failure is
  replaced by a network error that keeps the original error as context. Every failure
  leaving the \<open>try\<close> block of \<open>detectDimension\<close> is such an error of the module and
  leaves \<open>detectDimension\<close> unchanged; its handler passes the module's errors through and
  wraps whatever else it would be given.
\<close>

theorem adapter_errors_pass_unwrapped:
  "(makeRequest_try e a w u b = (Inl err, w') \<and> isAdapterError err \<longrightarrow>
      makeRequest e a w u b = (Inl err, w'))
   \<and> (makeRequest_try e a w u b = (Inl err, w') \<and> \<not> isAdapterError err \<longrightarrow>
      (\<exists>m. makeRequest e a w u b = (Inl (NetworkError m (originalError err)), w')))
   \<and> (detectDimension_try e t a w = (Inl derr, dw) \<longrightarrow>
      isAdapterError derr \<and> detectDimension e t a w = (Inl derr, dw))
   \<and> (isAdapterError herr \<longrightarrow> detectDimension_catch herr = herr)
   \<and> (\<not> isAdapterError herr \<longrightarrow>
      detectDimension_catch herr =
        NetworkError (''Failed to detect embedding dimension: '' @
                      (if instanceofError herr then error_message herr else ''Unknown error''))
                     (originalError herr))"
proof (intro conjI impI)
  assume "makeRequest_try e a w u b = (Inl err, w') \<and> isAdapterError err"
  then show "makeRequest e a w u b = (Inl err, w')"
    by (simp add: makeRequest_def makeRequest_catch_passes)
next
  assume h: "makeRequest_try e a w u b = (Inl err, w') \<and> \<not> isAdapterError err"
  then obtain m where "makeRequest_catch a w err = NetworkError m (originalError err)"
    using makeRequest_catch_wraps by blast
  with h show "\<exists>m. makeRequest e a w u b = (Inl (NetworkError m (originalError err)), w')"
    by (auto simp: makeRequest_def)
next
  assume h: "detectDimension_try e t a w = (Inl derr, dw)"
  then show "isAdapterError derr" by (rule detectDimension_try_error)
  with h show "detectDimension e t a w = (Inl derr, dw)"
    by (simp add: detectDimension_def detectDimension_catch_passes)
next
  assume "isAdapterError herr"
  then show "detectDimension_catch herr = herr" by (rule detectDimension_catch_passes)
next
  assume "\<not> isAdapterError herr"
  then show "detectDimension_catch herr =
        NetworkError (''Failed to detect embedding dimension: '' @
                      (if instanceofError herr then error_message herr else ''Unknown error''))
                     (originalError herr)"
    by (simp add: detectDimension_catch_def isAdapterError_def originalError_def)
qed

lemma show_int_503: "show_int 503 = ''503''"
  by (simp add: show_int_def show_nat.simps)

lemma show_int_30000: "show_int 30000 = ''30000''"
  by (simp add: show_int_def show_nat.simps)

theorem adapter_errors_pass_unwrapped_witness:
  "makeRequest refusingEnv freshAdapter (worldWith emptyConfig) ''http://localhost:8080/v1/embeddings'' testBody =
     (Inl (NetworkError ''HTTP 503 (Service Unavailable): loading model'' None),
      (worldWith emptyConfig)\<lparr>requests := [sent freshAdapter (worldWith emptyConfig) (Single ''test'')]\<rparr>)
   \<and> (\<exists>m. makeRequest abortingEnv freshAdapter (worldWith emptyConfig) ''http://localhost:8080/v1/embeddings'' testBody =
     (Inl (NetworkError m (Some (JsError ''AbortError'' ''This operation was aborted''))),
      (worldWith emptyConfig)\<lparr>requests := [sent freshAdapter (worldWith emptyConfig) (Single ''test'')]\<rparr>))
   \<and> detectDimension refusingEnv ''test'' freshAdapter (worldWith emptyConfig) =
     (Inl (NetworkError ''HTTP 503 (Service Unavailable): loading model'' None),
      (worldWith emptyConfig)\<lparr>requests := [sent freshAdapter (worldWith emptyConfig) (Single ''test'')]\<rparr>)
   \<and> detectDimension_catch (ConfigurationError ''Test text must be a string'') =
       ConfigurationError ''Test text must be a string''
   \<and> detectDimension_catch (JsError ''RangeError'' ''out of range'') =
       NetworkError ''Failed to detect embedding dimension: out of range''
         (Some (JsError ''RangeError'' ''out of range''))"
proof -
  let ?w = "worldWith emptyConfig"
  let ?w' = "?w\<lparr>requests := [sent freshAdapter ?w (Single ''test'')]\<rparr>"
  let ?u = "''http://localhost:8080/v1/embeddings''"
  let ?e1 = "NetworkError ''HTTP 503 (Service Unavailable): loading model'' None"
  let ?e2 = "JsError ''AbortError'' ''This operation was aborted''"
  let ?e3 = "ConfigurationError ''Test text must be a string''"
  let ?e4 = "JsError ''RangeError'' ''out of range''"
  have t1: "makeRequest_try refusingEnv freshAdapter ?w ?u testBody = (Inl ?e1, ?w')"
    by (simp add: makeRequest_try_def refusingEnv_def setting_defs testBody_def sent_def
        config_def embeddings_url_def request_model_def show_int_503)
  have t2: "makeRequest_try abortingEnv freshAdapter ?w ?u testBody = (Inl ?e2, ?w')"
    by (simp add: makeRequest_try_def abortingEnv_def setting_defs testBody_def sent_def
        config_def embeddings_url_def request_model_def)
  have t3: "detectDimension_try refusingEnv ''test'' freshAdapter ?w = (Inl ?e1, ?w')"
    by (simp add: detectDimension_try_def makeRequest_def makeRequest_catch_def NetworkError_def
        makeRequest_try_def refusingEnv_def setting_defs sent_def
        config_def embeddings_url_def request_model_def show_int_503)
  have a1: "isAdapterError ?e1" and a3: "isAdapterError ?e3" by simp_all
  have a2: "\<not> isAdapterError ?e2" and a4: "\<not> isAdapterError ?e4"
    by (simp_all add: isAdapterError_def)
  have o2: "originalError ?e2 = Some ?e2" and o4: "originalError ?e4 = Some ?e4"
    by (simp_all add: originalError_def)
  note T = adapter_errors_pass_unwrapped
  from T[of refusingEnv freshAdapter ?w ?u testBody ?e1 ?w'] t1 a1
  have c1: "makeRequest refusingEnv freshAdapter ?w ?u testBody = (Inl ?e1, ?w')" by blast
  from T[of abortingEnv freshAdapter ?w ?u testBody ?e2 ?w'] t2 a2 o2
  have c2: "\<exists>m. makeRequest abortingEnv freshAdapter ?w ?u testBody = (Inl (NetworkError m (Some ?e2)), ?w')"
    by auto
  from T[where e = refusingEnv and t = "''test''" and a = freshAdapter and w = ?w and derr = ?e1 and dw = ?w'] t3
  have c3: "detectDimension refusingEnv ''test'' freshAdapter ?w = (Inl ?e1, ?w')" by blast
  from T[where herr = ?e3] a3
  have c4: "detectDimension_catch ?e3 = ?e3" by blast
  from T[where herr = ?e4] a4 o4
  have c5: "detectDimension_catch ?e4 = NetworkError ''Failed to detect embedding dimension: out of range'' (Some ?e4)"
    by simp
  show ?thesis using c1 c2 c3 c4 c5 by blast
qed


subsection \<open>What the operations change\<close>

lemma makeRequest_success:
  "makeRequest e a w u b = (Inr j, w') \<Longrightarrow>
   \<exists>res. fetch e (requests w) \<lparr>url = u, body = b, abort_after = or_default_num (timeout (config a w)) 30000\<rparr> = Inr res
        \<and> ok res \<and> response_json res = Inr j"
  by (auto simp: makeRequest_def makeRequest_try_def Let_def split: prod.splits sum.splits if_splits)

lemma detectDimension_success:
  "detectDimension e t a w = (Inr d, w') \<Longrightarrow>
   \<exists>res j emb. fetch e (requests w) (sent a w (Single (preprocessText e (this_maxTokens a) t))) = Inr res
        \<and> ok res \<and> response_json res = Inr j \<and> firstEmbedding j = Inr emb
        \<and> emb \<noteq> [] \<and> d = int (length emb)"
  by (auto simp: detectDimension_def detectDimension_try_def sent_def Let_def
      split: prod.splits sum.splits if_splits dest!: makeRequest_success)

lemma ensure_detected:
  "this_dimensionDetected a \<or> truthy_num (dimension (config a w)) \<Longrightarrow>
   ensureDimensionDetected e a w = (Inr (), a, w)"
  by (auto simp: ensureDimensionDetected_def)

lemma ensure_undetected:
  "\<not> this_dimensionDetected a \<Longrightarrow> \<not> truthy_num (dimension (config a w)) \<Longrightarrow>
   ensureDimensionDetected e a w =
     (case detectDimension e ''test'' a w of
        (Inl err, w') \<Rightarrow> (Inl err, a, w')
      | (Inr d, w') \<Rightarrow> (Inr (), a\<lparr>this_dimension := d, this_dimensionDetected := True\<rparr>, w'))"
  by (simp add: ensureDimensionDetected_def)

lemma ensure_shape:
  assumes "ensureDimensionDetected e a w = (r, a1, w1)"
  shows "store w1 = store w" "next_addr w1 = next_addr w" "this_config a1 = this_config a"
    "this_host a1 = this_host a" "this_maxTokens a1 = this_maxTokens a"
    "this_codePrefix a1 = this_codePrefix a"
    "requests w1 = requests w \<or>
     requests w1 = requests w @ [sent a w (Single (preprocessText e (this_maxTokens a) ''test''))]"
  using assms
  by (auto simp: ensureDimensionDetected_def split: if_splits prod.splits sum.splits
      dest!: detectDimension_world)

lemma embed_after_ensure_world:
  assumes "ensureDimensionDetected e a w = (Inr u, a1, w1)"
  shows "\<exists>r. embed e t a w =
           (r, a1, w1\<lparr>requests := requests w1 @ [sent a w1 (Single (preprocessTextForCode e a w t))]\<rparr>)"
proof -
  obtain r w2 where m: "makeRequest e a1 w1 (embeddings_url a1)
      \<lparr>input = Single (preprocessTextForCode e a w t), body_model = request_model a1 w1\<rparr> = (r, w2)"
    by (cases "makeRequest e a1 w1 (embeddings_url a1)
      \<lparr>input = Single (preprocessTextForCode e a w t), body_model = request_model a1 w1\<rparr>")
  have s: "sent a1 w1 i = sent a w1 i" for i
    using ensure_shape[OF assms] by (intro sent_cong) simp_all
  from makeRequest_world[OF m]
  have "w2 = w1\<lparr>requests := requests w1 @ [sent a1 w1 (Single (preprocessTextForCode e a w t))]\<rparr>"
    by (simp add: sent_def)
  then have "w2 = w1\<lparr>requests := requests w1 @ [sent a w1 (Single (preprocessTextForCode e a w t))]\<rparr>"
    by (simp only: s)
  with assms m show ?thesis
    by (cases r) (auto simp: embed_def Let_def split: sum.splits)
qed

lemma embedBatch_after_ensure_world:
  assumes "ensureDimensionDetected e a w = (Inr u, a1, w1)" "ts \<noteq> []"
  shows "\<exists>r. embedBatch e ts a w =
           (r, a1, w1\<lparr>requests := requests w1 @ [sent a w1 (Batch (map (preprocessTextForCode e a w) ts))]\<rparr>)"
proof -
  obtain r w2 where m: "makeRequest e a1 w1 (embeddings_url a1)
      \<lparr>input = Batch (map (preprocessTextForCode e a w) ts), body_model = request_model a1 w1\<rparr> = (r, w2)"
    by (cases "makeRequest e a1 w1 (embeddings_url a1)
      \<lparr>input = Batch (map (preprocessTextForCode e a w) ts), body_model = request_model a1 w1\<rparr>")
  have s: "sent a1 w1 i = sent a w1 i" for i
    using ensure_shape[OF assms(1)] by (intro sent_cong) simp_all
  from makeRequest_world[OF m]
  have "w2 = w1\<lparr>requests := requests w1 @ [sent a1 w1 (Batch (map (preprocessTextForCode e a w) ts))]\<rparr>"
    by (simp add: sent_def)
  then have "w2 = w1\<lparr>requests := requests w1 @ [sent a w1 (Batch (map (preprocessTextForCode e a w) ts))]\<rparr>"
    by (simp only: s)
  with assms m show ?thesis
    by (cases r) (auto simp: embedBatch_def Let_def split: sum.splits)
qed

lemma embed_ensure_failed:
  "ensureDimensionDetected e a w = (Inl err, a1, w1) \<Longrightarrow> embed e t a w = (Inl err, a1, w1)"
  by (simp add: embed_def)

lemma embedBatch_ensure_failed:
  "ensureDimensionDetected e a w = (Inl err, a1, w1) \<Longrightarrow> ts \<noteq> [] \<Longrightarrow>
   embedBatch e ts a w = (Inl err, a1, w1)"
  by (simp add: embedBatch_def)

lemma sent_model: "body_model (body (sent a w i)) = request_model a w"
  by (simp add: sent_def)

lemma request_model_store: "store w1 = store w \<Longrightarrow> request_model a w1 = request_model a w"
  by (simp add: request_model_def config_def)

lemma embed_frame:
  assumes "embed e t a w = (r, a', w')"
  shows "store w' = store w \<and> next_addr w' = next_addr w \<and> this_config a' = this_config a \<and>
      this_host a' = this_host a \<and> this_maxTokens a' = this_maxTokens a \<and>
      this_codePrefix a' = this_codePrefix a \<and>
      (\<exists>new. requests w' = requests w @ new \<and> (\<forall>q\<in>set new. body_model (body q) = request_model a w)) \<and>
      (this_dimensionDetected a \<longrightarrow> a' = a)"
proof -
  obtain r1 a1 w1 where en: "ensureDimensionDetected e a w = (r1, a1, w1)"
    by (cases "ensureDimensionDetected e a w")
  note sh = ensure_shape[OF en]
  have rm: "request_model a w1 = request_model a w" using sh(1) by (rule request_model_store)
  have det: "this_dimensionDetected a \<Longrightarrow> a1 = a"
    using en ensure_detected[of a w e] by simp
  show ?thesis
  proof (cases r1)
    case (Inl err)
    with en assms embed_ensure_failed[of e a w err a1 w1 t] have "a' = a1" "w' = w1" by simp_all
    with sh det show ?thesis by (auto simp: sent_model)
  next
    case (Inr u)
    with en embed_after_ensure_world[of e a w u a1 w1 t] assms
    have "a' = a1" "w' = w1\<lparr>requests := requests w1 @ [sent a w1 (Single (preprocessTextForCode e a w t))]\<rparr>"
      by auto
    with sh det rm show ?thesis by (auto simp: sent_model)
  qed
qed

lemma embedBatch_frame:
  assumes "embedBatch e ts a w = (r, a', w')"
  shows "store w' = store w \<and> next_addr w' = next_addr w \<and> this_config a' = this_config a \<and>
      this_host a' = this_host a \<and> this_maxTokens a' = this_maxTokens a \<and>
      this_codePrefix a' = this_codePrefix a \<and>
      (\<exists>new. requests w' = requests w @ new \<and> (\<forall>q\<in>set new. body_model (body q) = request_model a w)) \<and>
      (this_dimensionDetected a \<longrightarrow> a' = a)"
proof (cases "ts = []")
  case True
  with assms show ?thesis by (simp add: embedBatch_def)
next
  case ne: False
  obtain r1 a1 w1 where en: "ensureDimensionDetected e a w = (r1, a1, w1)"
    by (cases "ensureDimensionDetected e a w")
  note sh = ensure_shape[OF en]
  have rm: "request_model a w1 = request_model a w" using sh(1) by (rule request_model_store)
  have det: "this_dimensionDetected a \<Longrightarrow> a1 = a"
    using en ensure_detected[of a w e] by simp
  show ?thesis
  proof (cases r1)
    case (Inl err)
    with en assms ne embedBatch_ensure_failed[of e a w err a1 w1 ts] have "a' = a1" "w' = w1" by simp_all
    with sh det show ?thesis by (auto simp: sent_model)
  next
    case (Inr u)
    with en embedBatch_after_ensure_world[of e a w u a1 w1 ts] assms ne
    have "a' = a1" "w' = w1\<lparr>requests := requests w1 @ [sent a w1 (Batch (map (preprocessTextForCode e a w) ts))]\<rparr>"
      by auto
    with sh det rm show ?thesis by (auto simp: sent_model)
  qed
qed

lemma set_config_model:
  "model (f (store w (this_config a))) = model (store w (this_config a)) \<Longrightarrow>
   model (config a (set_config a f w)) = model (config a w)"
  by (simp add: set_config_def config_def)

lemma perform_frame:
  assumes "perform e op a w = (r, a', w')" "\<not> isSetModel op"
  shows "this_config a' = this_config a \<and> model (config a' w') = model (config a w) \<and>
      (\<exists>new. requests w' = requests w @ new \<and> (\<forall>q\<in>set new. body_model (body q) = request_model a w)) \<and>
      (this_dimensionDetected a \<longrightarrow> this_dimensionDetected a' \<and> this_dimension a' = this_dimension a)"
proof (cases op)
  case (Embed t)
  with assms obtain r0 where "embed e t a w = (r0, a', w')" by (auto split: prod.splits)
  from embed_frame[OF this] show ?thesis by (auto simp: config_def)
next
  case (EmbedBatch ts)
  with assms obtain r0 where "embedBatch e ts a w = (r0, a', w')" by (auto split: prod.splits)
  from embedBatch_frame[OF this] show ?thesis by (auto simp: config_def)
next
  case (DetectDimension t)
  with assms obtain r0 where "detectDimension e t a w = (r0, w')" "a' = a" by (auto split: prod.splits)
  with detectDimension_world[of e t a w r0 w'] show ?thesis by (auto simp: config_def sent_model)
next
  case (SetHost h)
  with assms show ?thesis
    by (auto simp: setHost_def set_config_def config_def split: sum.splits)
next
  case (SetModel m)
  with assms show ?thesis by simp
next
  case (SetCodePrefix b)
  with assms show ?thesis by (auto simp: setCodePrefix_def set_config_def config_def)
next
  case (SetCustomCodePrefix p)
  with assms show ?thesis
    by (auto simp: setCustomCodePrefix_def set_config_def config_def split: if_splits)
next
  case (SetTimeout t)
  with assms show ?thesis
    by (auto simp: setTimeout_def set_config_def config_def split: if_splits)
next
  case GetConfig
  with assms show ?thesis by (auto simp: getConfig_def config_def)
next
  case GetDimension
  with assms show ?thesis by auto
next
  case GetProvider
  with assms show ?thesis by auto
next
  case GetModel
  with assms show ?thesis by auto
qed

lemma request_model_eq:
  "this_config a' = this_config a \<Longrightarrow> model (config a' w') = model (config a w) \<Longrightarrow>
   request_model a' w' = request_model a w"
  by (simp add: request_model_def)

lemma run_frame:
  assumes "run e ops a w = (rs, a', w')" "list_all (\<lambda>op. \<not> isSetModel op) ops"
  shows "this_config a' = this_config a \<and> model (config a' w') = model (config a w) \<and>
      (\<exists>new. requests w' = requests w @ new \<and> (\<forall>q\<in>set new. body_model (body q) = request_model a w)) \<and>
      (this_dimensionDetected a \<longrightarrow> this_dimensionDetected a' \<and> this_dimension a' = this_dimension a)"
  using assms
proof (induction ops arbitrary: a w rs)
  case Nil
  then show ?case by simp
next
  case (Cons op ops)
  obtain r1 a1 w1 where p: "perform e op a w = (r1, a1, w1)" by (cases "perform e op a w")
  obtain rs2 where r: "run e ops a1 w1 = (rs2, a', w')"
    using Cons.prems(1) p by (auto split: prod.splits)
  from Cons.prems(2) have no: "\<not> isSetModel op" "list_all (\<lambda>op. \<not> isSetModel op) ops" by simp_all
  note f = perform_frame[OF p no(1)]
  note ih = Cons.IH[OF r no(2)]
  have rm: "request_model a1 w1 = request_model a w" using f by (intro request_model_eq) simp_all
  from f obtain new1 where n1: "requests w1 = requests w @ new1"
    "\<forall>q\<in>set new1. body_model (body q) = request_model a w" by blast
  from ih obtain new2 where n2: "requests w' = requests w1 @ new2"
    "\<forall>q\<in>set new2. body_model (body q) = request_model a1 w1" by blast
  have "requests w' = requests w @ (new1 @ new2)" using n1 n2 by simp
  moreover have "\<forall>q\<in>set (new1 @ new2). body_model (body q) = request_model a w"
    using n1 n2 rm by auto
  ultimately have ex: "\<exists>new. requests w' = requests w @ new \<and>
      (\<forall>q\<in>set new. body_model (body q) = request_model a w)" by blast
  from f ih ex show ?case by simp
qed

lemmas embed_defs = embed_def embedBatch_def batchEmbeddings_def preprocessTextForCode_def
  startsWith_def


subsection \<open>Model names\<close>

text \<open>
  Claim C10. For an adapter constructed with no model configured, and for as long as its
  caller does not call \<open>setModel\<close>, \<open>getModel\<close> returns \<open>nomic-embed-code\<close> while
  every request the adapter sends carries the model name \<open>embedding-model\<close>: the two
  defaults differ.
\<close>

theorem default_model_names_differ:
  assumes "constructor e (Some r) w0 = (Inr a, w)"
      and "\<not> truthy_str (model (store w0 r))"
      and "list_all (\<lambda>op. \<not> isSetModel op) ops"
      and "run e ops a w = (outs, a', w')"
  shows "getModel a' w' = ''nomic-embed-code''
       \<and> (\<exists>new. requests w' = requests w @ new \<and>
             (\<forall>q\<in>set new. body_model (body q) = ''embedding-model''))
       \<and> body_model (body (sent a' w' i)) = ''embedding-model''
       \<and> body_model (body (sent a' w' i)) \<noteq> getModel a' w'"
proof -
  note c = constructor_success[OF assms(1)]
  have m0: "\<not> truthy_str (model (config a w))"
    using c(1,2) assms(2) by (simp add: config_def)
  note f = run_frame[OF assms(4,3)]
  have m1: "\<not> truthy_str (model (config a' w'))" using f m0 by simp
  have d: "or_default_str x y = y" if "\<not> truthy_str x" for x y
    using that by (cases x) auto
  have g: "getModel a' w' = ''nomic-embed-code''" by (simp add: getModel_def d[OF m1])
  have q0: "request_model a w = ''embedding-model''" by (simp add: request_model_def d[OF m0])
  have q1: "request_model a' w' = ''embedding-model''" by (simp add: request_model_def d[OF m1])
  from f q0 g q1 show ?thesis by (simp add: sent_model)
qed


theorem default_model_names_differ_witness:
  "constructor exampleEnv (Some 0) (worldWith emptyConfig) = (Inr freshAdapter, prefixOnWorld)
   \<and> \<not> truthy_str (model (store (worldWith emptyConfig) 0))
   \<and> list_all (\<lambda>op. \<not> isSetModel op) [Embed ''foo'', GetModel]
   \<and> run exampleEnv [Embed ''foo'', GetModel] freshAdapter prefixOnWorld =
     ([ReturnedVector \<lparr>vector = [JNum 1, JNum 2, JNum 3], vdimension = 3\<rparr>,
       ReturnedString ''nomic-embed-code''],
      freshAdapter\<lparr>this_dimension := 3, this_dimensionDetected := True\<rparr>,
      prefixOnWorld\<lparr>requests :=
        [sent freshAdapter prefixOnWorld (Single ''test''),
         sent freshAdapter prefixOnWorld
           (Single ''Represent this query for searching relevant code: foo'')]\<rparr>)
   \<and> getModel (freshAdapter\<lparr>this_dimension := 3, this_dimensionDetected := True\<rparr>)
        (prefixOnWorld\<lparr>requests :=
          [sent freshAdapter prefixOnWorld (Single ''test''),
           sent freshAdapter prefixOnWorld
             (Single ''Represent this query for searching relevant code: foo'')]\<rparr>)
       = ''nomic-embed-code''
   \<and> body_model (body (sent freshAdapter prefixOnWorld (Single ''test''))) = ''embedding-model''
   \<and> body_model (body (sent freshAdapter prefixOnWorld
         (Single ''Represent this query for searching relevant code: foo''))) = ''embedding-model''"
proof -
  let ?a' = "freshAdapter\<lparr>this_dimension := 3, this_dimensionDetected := True\<rparr>"
  let ?q1 = "sent freshAdapter prefixOnWorld (Single ''test'')"
  let ?q2 = "sent freshAdapter prefixOnWorld
           (Single ''Represent this query for searching relevant code: foo'')"
  let ?w' = "prefixOnWorld\<lparr>requests := [?q1, ?q2]\<rparr>"
  have h1: "constructor exampleEnv (Some 0) (worldWith emptyConfig) = (Inr freshAdapter, prefixOnWorld)"
    by (simp add: constructor_def validateConfig_def setting_defs normalizeHost_def prefixOnWorld_def)
  have h2: "\<not> truthy_str (model (store (worldWith emptyConfig) 0))"
    by (simp add: setting_defs)
  have h3: "list_all (\<lambda>op. \<not> isSetModel op) [Embed ''foo'', GetModel]" by simp
  have h4: "run exampleEnv [Embed ''foo'', GetModel] freshAdapter prefixOnWorld =
     ([ReturnedVector \<lparr>vector = [JNum 1, JNum 2, JNum 3], vdimension = 3\<rparr>,
       ReturnedString ''nomic-embed-code''], ?a', ?w')"
    by (simp add: prefixOnWorld_def setting_defs request_defs embed_defs sent_def getModel_def)
  have r0: "requests prefixOnWorld = []" by (simp add: prefixOnWorld_def worldWith_def)
  from default_model_names_differ[OF h1 h2 h3 h4]
  have c: "getModel ?a' ?w' = ''nomic-embed-code''"
    "\<exists>new. requests ?w' = requests prefixOnWorld @ new \<and>
        (\<forall>q\<in>set new. body_model (body q) = ''embedding-model'')"
    by blast+
  from c(2) have "\<forall>q\<in>set [?q1, ?q2]. body_model (body q) = ''embedding-model''"
    by (simp add: r0)
  then have c2: "body_model (body ?q1) = ''embedding-model''"
    "body_model (body ?q2) = ''embedding-model''" by simp_all
  show ?thesis using h1 h2 h3 h4 c(1) c2 by blast
qed


subsection \<open>Dimension detection\<close>

text \<open>
  Claim C4. An adapter with no fixed dimension and nothing detected yet, whose \<open>embed\<close>
  or \<open>embedBatch\<close> call succeeds, has sent exactly two requests in that call: one
  detection request for the text \<open>test\<close> and the request of the call; the detected
  length is cached and the detected flag set. After any operations of the caller other
  than \<open>setModel\<close>, the flag is still set and the cached dimension unchanged, and every
  further \<open>embed\<close> or \<open>embedBatch\<close> call sends only its own request (none for an empty
  batch) and leaves the adapter as it is.
\<close>

theorem detection_happens_once:
  assumes "\<not> this_dimensionDetected a"
      and "\<not> truthy_num (dimension (config a w))"
      and "embed e t a w = (Inr v, a1, w1) \<or> embedBatch e ts a w = (Inr vs, a1, w1)"
      and "list_all (\<lambda>op. \<not> isSetModel op) ops"
      and "run e ops a1 w1 = (outs, a2, w2)"
  shows "(\<exists>d. detectDimension e ''test'' a w =
              (Inr d, w\<lparr>requests := requests w @
                        [sent a w (Single (preprocessText e (this_maxTokens a) ''test''))]\<rparr>)
            \<and> a1 = a\<lparr>this_dimension := d, this_dimensionDetected := True\<rparr>)
       \<and> (embed e t a w = (Inr v, a1, w1) \<longrightarrow>
            requests w1 = requests w @
              [sent a w (Single (preprocessText e (this_maxTokens a) ''test'')),
               sent a w (Single (preprocessTextForCode e a w t))])
       \<and> (embedBatch e ts a w = (Inr vs, a1, w1) \<longrightarrow>
            requests w1 = requests w @
              [sent a w (Single (preprocessText e (this_maxTokens a) ''test'')),
               sent a w (Batch (map (preprocessTextForCode e a w) ts))])
       \<and> this_dimensionDetected a2 \<and> this_dimension a2 = this_dimension a1
       \<and> (\<exists>r. embed e t' a2 w2 =
              (r, a2, w2\<lparr>requests := requests w2 @
                         [sent a2 w2 (Single (preprocessTextForCode e a2 w2 t'))]\<rparr>))
       \<and> (\<exists>r. embedBatch e ts' a2 w2 =
              (r, a2, if ts' = [] then w2
                      else w2\<lparr>requests := requests w2 @
                         [sent a2 w2 (Batch (map (preprocessTextForCode e a2 w2) ts'))]\<rparr>))"
proof -
  let ?q = "sent a w (Single (preprocessText e (this_maxTokens a) ''test''))"
  let ?wd = "w\<lparr>requests := requests w @ [?q]\<rparr>"
  obtain rd wd where dd: "detectDimension e ''test'' a w = (rd, wd)"
    by (cases "detectDimension e ''test'' a w")
  have wd: "wd = ?wd" using detectDimension_world[OF dd] .
  have en: "ensureDimensionDetected e a w =
      (case rd of Inl err \<Rightarrow> (Inl err, a, wd)
       | Inr d \<Rightarrow> (Inr (), a\<lparr>this_dimension := d, this_dimensionDetected := True\<rparr>, wd))"
    using ensure_undetected[OF assms(1,2), of e] dd by (simp split: sum.splits)
  have ok: "\<exists>d. rd = Inr d"
  proof (cases rd)
    case (Inl err)
    with en have f: "ensureDimensionDetected e a w = (Inl err, a, wd)" by simp
    have ne: "ts \<noteq> []" if "embedBatch e ts a w = (Inr vs, a1, w1)"
      using that by (auto simp: embedBatch_def)
    from assms(3) embed_ensure_failed[OF f, of t] embedBatch_ensure_failed[OF f, of ts] ne
    show ?thesis by auto
  qed simp
  then obtain d where d: "rd = Inr d" ..
  let ?a1 = "a\<lparr>this_dimension := d, this_dimensionDetected := True\<rparr>"
  from en d have en1: "ensureDimensionDetected e a w = (Inr (), ?a1, wd)" by simp
  have sc: "sent a wd i = sent a w i" for i by (rule sent_cong) (simp_all add: wd)
  from embed_after_ensure_world[OF en1, of t]
  have e1: "\<exists>r. embed e t a w =
      (r, ?a1, w\<lparr>requests := requests w @ [?q, sent a w (Single (preprocessTextForCode e a w t))]\<rparr>)"
    by (simp add: sc) (simp add: wd)
  have e2: "\<exists>r. embedBatch e ts a w =
      (r, ?a1, w\<lparr>requests := requests w @ [?q, sent a w (Batch (map (preprocessTextForCode e a w) ts))]\<rparr>)"
    if "ts \<noteq> []"
    using embedBatch_after_ensure_world[OF en1 that] by (simp add: sc) (simp add: wd)
  have a1: "a1 = ?a1"
  proof -
    have "ts \<noteq> []" if "embedBatch e ts a w = (Inr vs, a1, w1)"
      using that by (auto simp: embedBatch_def)
    with assms(3) e1 e2 show ?thesis by auto
  qed
  have p1: "\<exists>d. detectDimension e ''test'' a w = (Inr d, ?wd) \<and> a1 = a\<lparr>this_dimension := d, this_dimensionDetected := True\<rparr>"
    using dd d wd a1 by auto
  have p2: "embed e t a w = (Inr v, a1, w1) \<longrightarrow>
            requests w1 = requests w @ [?q, sent a w (Single (preprocessTextForCode e a w t))]"
    using e1 by auto
  have p3: "embedBatch e ts a w = (Inr vs, a1, w1) \<longrightarrow>
            requests w1 = requests w @ [?q, sent a w (Batch (map (preprocessTextForCode e a w) ts))]"
  proof
    assume b: "embedBatch e ts a w = (Inr vs, a1, w1)"
    then have "ts \<noteq> []" by (auto simp: embedBatch_def)
    from e2[OF this] b show "requests w1 = requests w @ [?q, sent a w (Batch (map (preprocessTextForCode e a w) ts))]"
      by auto
  qed
  have det1: "this_dimensionDetected a1" using a1 by simp
  from run_frame[OF assms(5,4)] det1
  have p4: "this_dimensionDetected a2" "this_dimension a2 = this_dimension a1" by simp_all
  have en2: "ensureDimensionDetected e a2 w2 = (Inr (), a2, w2)"
    using p4(1) by (simp add: ensure_detected)
  have p5: "\<exists>r. embed e t' a2 w2 =
              (r, a2, w2\<lparr>requests := requests w2 @
                         [sent a2 w2 (Single (preprocessTextForCode e a2 w2 t'))]\<rparr>)"
    using embed_after_ensure_world[OF en2, of t'] .
  have p6: "\<exists>r. embedBatch e ts' a2 w2 =
              (r, a2, if ts' = [] then w2
                      else w2\<lparr>requests := requests w2 @
                         [sent a2 w2 (Batch (map (preprocessTextForCode e a2 w2) ts'))]\<rparr>)"
  proof (cases "ts' = []")
    case True
    then show ?thesis by (simp add: embedBatch_def)
  next
    case False
    with embedBatch_after_ensure_world[OF en2 False] show ?thesis by simp
  qed
  from p1 p2 p3 p4 p5 p6 show ?thesis by blast
qed

theorem detection_happens_once_witness:
  "\<not> this_dimensionDetected freshAdapter
   \<and> \<not> truthy_num (dimension (config freshAdapter prefixOnWorld))
   \<and> embed exampleEnv ''foo'' freshAdapter prefixOnWorld =
       (Inr \<lparr>vector = [JNum 1, JNum 2, JNum 3], vdimension = 3\<rparr>, detectedAdapter,
        prefixOnWorld\<lparr>requests :=
          [sent freshAdapter prefixOnWorld (Single ''test''),
           sent freshAdapter prefixOnWorld
             (Single ''Represent this query for searching relevant code: foo'')]\<rparr>)
   \<and> list_all (\<lambda>op. \<not> isSetModel op) [GetDimension]
   \<and> run exampleEnv [GetDimension] detectedAdapter
        (prefixOnWorld\<lparr>requests :=
          [sent freshAdapter prefixOnWorld (Single ''test''),
           sent freshAdapter prefixOnWorld
             (Single ''Represent this query for searching relevant code: foo'')]\<rparr>) =
       ([ReturnedNumber 3], detectedAdapter,
        prefixOnWorld\<lparr>requests :=
          [sent freshAdapter prefixOnWorld (Single ''test''),
           sent freshAdapter prefixOnWorld
             (Single ''Represent this query for searching relevant code: foo'')]\<rparr>)
   \<and> detectDimension exampleEnv ''test'' freshAdapter prefixOnWorld =
       (Inr 3, prefixOnWorld\<lparr>requests := [sent freshAdapter prefixOnWorld (Single ''test'')]\<rparr>)
   \<and> (\<exists>r. embed exampleEnv ''bar'' detectedAdapter
        (prefixOnWorld\<lparr>requests :=
          [sent freshAdapter prefixOnWorld (Single ''test''),
           sent freshAdapter prefixOnWorld
             (Single ''Represent this query for searching relevant code: foo'')]\<rparr>) =
       (r, detectedAdapter,
        prefixOnWorld\<lparr>requests :=
          [sent freshAdapter prefixOnWorld (Single ''test''),
           sent freshAdapter prefixOnWorld
             (Single ''Represent this query for searching relevant code: foo''),
           sent freshAdapter prefixOnWorld
             (Single ''Represent this query for searching relevant code: bar'')]\<rparr>))"
proof -
  let ?q1 = "sent freshAdapter prefixOnWorld (Single ''test'')"
  let ?q2 = "sent freshAdapter prefixOnWorld
             (Single ''Represent this query for searching relevant code: foo'')"
  let ?q3 = "sent freshAdapter prefixOnWorld
             (Single ''Represent this query for searching relevant code: bar'')"
  let ?w1 = "prefixOnWorld\<lparr>requests := [?q1, ?q2]\<rparr>"
  let ?v = "\<lparr>vector = [JNum 1, JNum 2, JNum 3], vdimension = 3\<rparr>"
  have h1: "\<not> this_dimensionDetected freshAdapter" by (simp add: freshAdapter_def)
  have h2: "\<not> truthy_num (dimension (config freshAdapter prefixOnWorld))"
    by (simp add: prefixOnWorld_def setting_defs config_def)
  have h3: "embed exampleEnv ''foo'' freshAdapter prefixOnWorld = (Inr ?v, detectedAdapter, ?w1)"
    by (simp add: detectedAdapter_def prefixOnWorld_def setting_defs request_defs embed_defs sent_def)
  have h4: "list_all (\<lambda>op. \<not> isSetModel op) [GetDimension]" by simp
  have h5: "run exampleEnv [GetDimension] detectedAdapter ?w1 = ([ReturnedNumber 3], detectedAdapter, ?w1)"
    by (simp add: getDimension_def detectedAdapter_def)
  have r0: "requests prefixOnWorld = []" by (simp add: prefixOnWorld_def worldWith_def)
  have hk: "preprocessText exampleEnv n x = x" for n x by (simp add: exampleEnv_def)
  have s1: "sent detectedAdapter ?w1 i = sent freshAdapter prefixOnWorld i" for i
    by (rule sent_cong) (simp_all add: detectedAdapter_def)
  have pp: "preprocessTextForCode exampleEnv detectedAdapter ?w1 ''bar'' =
      ''Represent this query for searching relevant code: bar''"
    by (simp add: detectedAdapter_def prefixOnWorld_def setting_defs config_def embed_defs)
  note T = detection_happens_once[OF h1 h2 disjI1[OF h3] h4 h5, of "[]" undefined "''bar''" "[]"]
  from T have c1: "\<exists>d. detectDimension exampleEnv ''test'' freshAdapter prefixOnWorld =
        (Inr d, prefixOnWorld\<lparr>requests := [?q1]\<rparr>)
      \<and> detectedAdapter = freshAdapter\<lparr>this_dimension := d, this_dimensionDetected := True\<rparr>"
    by (simp add: r0 hk)
  then obtain d where d: "detectDimension exampleEnv ''test'' freshAdapter prefixOnWorld =
        (Inr d, prefixOnWorld\<lparr>requests := [?q1]\<rparr>)"
      "detectedAdapter = freshAdapter\<lparr>this_dimension := d, this_dimensionDetected := True\<rparr>"
    by blast
  have "this_dimension detectedAdapter = d"
    by (subst d(2)) simp
  then have "d = 3" by (simp add: detectedAdapter_def)
  with d(1) have c1': "detectDimension exampleEnv ''test'' freshAdapter prefixOnWorld =
       (Inr 3, prefixOnWorld\<lparr>requests := [?q1]\<rparr>)" by simp
  from T have c2: "\<exists>r. embed exampleEnv ''bar'' detectedAdapter ?w1 =
       (r, detectedAdapter, prefixOnWorld\<lparr>requests := [?q1, ?q2, ?q3]\<rparr>)"
    by (simp add: s1 pp)
  show ?thesis using h1 h2 h3 h4 h5 c1' c2 by blast
qed

subsection \<open>Changing the model\<close>

lemma detectDimension_eval:
  assumes "fetch e (requests w) (sent a w (Single (preprocessText e (this_maxTokens a) t))) = Inr res"
      and "ok res" "response_json res = Inr j" "firstEmbedding j = Inr emb" "emb \<noteq> []"
  shows "detectDimension e t a w =
     (Inr (int (length emb)),
      w\<lparr>requests := requests w @ [sent a w (Single (preprocessText e (this_maxTokens a) t))]\<rparr>)"
  using assms
  by (simp add: detectDimension_def detectDimension_try_def makeRequest_def makeRequest_try_def
      sent_def Let_def)

lemma trim_Nil: "trim [] = []"
  by (simp add: trim_def)

lemma set_config_requests: "requests (set_config a f w) = requests w"
  by (simp add: set_config_def)


text \<open>
  Claim C5. On an adapter with no fixed dimension, \<open>setModel\<close> with a name that is not
  blank stores the name, clears the detected flag and sends exactly one request, the
  detection request, carrying the new name. When detection succeeds the flag is set again
  and \<open>getDimension\<close> returns the length detected (the length of the embedding in the
  response); when it fails the call throws, the flag stays cleared and the dimension is
  the old one. The other mutators (\<open>setHost\<close>, \<open>setCodePrefix\<close>,
  \<open>setCustomCodePrefix\<close>, \<open>setTimeout\<close>) send nothing.
\<close>

theorem setModel_redetects:
  assumes "\<not> truthy_num (dimension (config a w))"
      and "trim m \<noteq> []"
      and "setModel e m a w = (r, a', w')"
  shows "requests w' = requests w @
           [sent a (set_config a (\<lambda>c. c\<lparr>model := Some m\<rparr>) w)
              (Single (preprocessText e (this_maxTokens a) ''test''))]
       \<and> body_model (body (sent a (set_config a (\<lambda>c. c\<lparr>model := Some m\<rparr>) w) i)) = m
       \<and> model (config a' w') = Some m
       \<and> (case r of
             Inr _ \<Rightarrow> this_dimensionDetected a' \<and>
                (\<exists>d. detectDimension e ''test'' (a\<lparr>this_dimensionDetected := False\<rparr>)
                        (set_config a (\<lambda>c. c\<lparr>model := Some m\<rparr>) w) = (Inr d, w')
                     \<and> getDimension a' = d)
           | Inl err \<Rightarrow> \<not> this_dimensionDetected a' \<and> getDimension a' = getDimension a \<and>
                detectDimension e ''test'' (a\<lparr>this_dimensionDetected := False\<rparr>)
                        (set_config a (\<lambda>c. c\<lparr>model := Some m\<rparr>) w) = (Inl err, w'))
       \<and> (\<forall>res j emb.
             fetch e (requests w)
               (sent a (set_config a (\<lambda>c. c\<lparr>model := Some m\<rparr>) w)
                  (Single (preprocessText e (this_maxTokens a) ''test''))) = Inr res
             \<and> ok res \<and> response_json res = Inr j \<and> firstEmbedding j = Inr emb \<and> emb \<noteq> []
             \<longrightarrow> r = Inr () \<and> getDimension a' = int (length emb))
       \<and> requests (snd (snd (setHost e h a w))) = requests w
       \<and> requests (snd (snd (setCodePrefix b a w))) = requests w
       \<and> requests (snd (snd (setCustomCodePrefix p a w))) = requests w
       \<and> requests (snd (snd (setTimeout n a w))) = requests w"
proof -
  let ?w1 = "set_config a (\<lambda>c. c\<lparr>model := Some m\<rparr>) w"
  let ?a1 = "a\<lparr>this_dimensionDetected := False\<rparr>"
  let ?q = "sent a ?w1 (Single (preprocessText e (this_maxTokens a) ''test''))"
  have ne: "m \<noteq> []" using assms(2) trim_Nil by auto
  have cfg: "config ?a1 ?w1 = (config a w)\<lparr>model := Some m\<rparr>"
    by (simp add: config_def set_config_def)
  have nd: "\<not> truthy_num (dimension (config ?a1 ?w1))" using assms(1) by (simp add: cfg)
  have sm: "setModel e m a w = ensureDimensionDetected e ?a1 ?w1"
    using assms(2) nd by (simp add: setModel_def Let_def)
  obtain rd wd where dd: "detectDimension e ''test'' ?a1 ?w1 = (rd, wd)"
    by (cases "detectDimension e ''test'' ?a1 ?w1")
  have sq: "sent ?a1 ?w1 i = sent a ?w1 i" for i by (rule sent_cong) simp_all
  have wd: "wd = ?w1\<lparr>requests := requests w @ [?q]\<rparr>"
    using detectDimension_world[OF dd] by (simp add: sq set_config_requests)
  have en: "ensureDimensionDetected e ?a1 ?w1 =
      (case rd of Inl err \<Rightarrow> (Inl err, ?a1, wd)
       | Inr d \<Rightarrow> (Inr (), ?a1\<lparr>this_dimension := d, this_dimensionDetected := True\<rparr>, wd))"
    using ensure_undetected[of ?a1 ?w1 e] nd dd by (simp split: sum.splits)
  have w': "w' = wd" using assms(3) sm en by (auto split: sum.splits)
  have p1: "requests w' = requests w @ [?q]" using w' wd by simp
  have p2: "body_model (body (sent a ?w1 i)) = m"
    using ne by (simp add: sent_def request_model_def config_def set_config_def)
  have tc: "this_config a' = this_config a" using assms(3) sm en by (auto split: sum.splits)
  have p3: "model (config a' w') = Some m"
    using w' wd tc by (simp add: config_def set_config_def)
  have p4: "(case r of
             Inr _ \<Rightarrow> this_dimensionDetected a' \<and>
                (\<exists>d. detectDimension e ''test'' ?a1 ?w1 = (Inr d, w') \<and> getDimension a' = d)
           | Inl err \<Rightarrow> \<not> this_dimensionDetected a' \<and> getDimension a' = getDimension a \<and>
                detectDimension e ''test'' ?a1 ?w1 = (Inl err, w'))"
    using assms(3) sm en dd w' by (cases rd) (auto simp: getDimension_def)
  have p5: "\<forall>res j emb.
             fetch e (requests w) ?q = Inr res
             \<and> ok res \<and> response_json res = Inr j \<and> firstEmbedding j = Inr emb \<and> emb \<noteq> []
             \<longrightarrow> r = Inr () \<and> getDimension a' = int (length emb)"
  proof (intro allI impI, elim conjE)
    fix res j emb
    assume f: "fetch e (requests w) ?q = Inr res" "ok res" "response_json res = Inr j"
      "firstEmbedding j = Inr emb" "emb \<noteq> []"
    have "fetch e (requests ?w1) (sent ?a1 ?w1 (Single (preprocessText e (this_maxTokens ?a1) ''test''))) = Inr res"
      using f(1) by (simp add: sq set_config_requests)
    from detectDimension_eval[OF this f(2-5)] dd have "rd = Inr (int (length emb))" by simp
    with assms(3) sm en show "r = Inr () \<and> getDimension a' = int (length emb)"
      by (auto simp: getDimension_def)
  qed
  have p6: "requests (snd (snd (setHost e h a w))) = requests w"
    by (simp add: setHost_def set_config_requests split: sum.splits)
  have p7: "requests (snd (snd (setCodePrefix b a w))) = requests w"
    by (simp add: setCodePrefix_def set_config_requests)
  have p8: "requests (snd (snd (setCustomCodePrefix p a w))) = requests w"
    by (simp add: setCustomCodePrefix_def set_config_requests)
  have p9: "requests (snd (snd (setTimeout n a w))) = requests w"
    by (simp add: setTimeout_def set_config_requests)
  from p1 p2 p3 p4 p5 p6 p7 p8 p9 show ?thesis by blast
qed

theorem setModel_redetects_witness:
  "\<not> truthy_num (dimension (config staleAdapter prefixOnWorld))
   \<and> trim ''new-model'' \<noteq> []
   \<and> setModel exampleEnv ''new-model'' staleAdapter prefixOnWorld =
       (Inr (), detectedAdapter,
        renamedWorld\<lparr>requests := [sent staleAdapter renamedWorld (Single ''test'')]\<rparr>)
   \<and> requests (renamedWorld\<lparr>requests := [sent staleAdapter renamedWorld (Single ''test'')]\<rparr>) =
       [sent staleAdapter renamedWorld (Single ''test'')]
   \<and> body_model (body (sent staleAdapter renamedWorld (Single ''test''))) = ''new-model''
   \<and> getDimension staleAdapter = 5
   \<and> getDimension detectedAdapter = 3
   \<and> requests (snd (snd (setTimeout 5000 staleAdapter prefixOnWorld))) = requests prefixOnWorld"
proof -
  let ?q = "sent staleAdapter renamedWorld (Single ''test'')"
  let ?w' = "renamedWorld\<lparr>requests := [?q]\<rparr>"
  have h1: "\<not> truthy_num (dimension (config staleAdapter prefixOnWorld))"
    by (simp add: staleAdapter_def prefixOnWorld_def setting_defs config_def)
  have h2: "trim ''new-model'' \<noteq> []"
    by (simp add: trim_def isWhiteSpace_def)
  have h3: "setModel exampleEnv ''new-model'' staleAdapter prefixOnWorld = (Inr (), detectedAdapter, ?w')"
    by (simp add: setModel_def h2 renamedWorld_def set_config_def staleAdapter_def detectedAdapter_def
        prefixOnWorld_def setting_defs request_defs sent_def)
  have r0: "requests prefixOnWorld = []" by (simp add: prefixOnWorld_def worldWith_def)
  have hk: "preprocessText exampleEnv n x = x" for n x by (simp add: exampleEnv_def)
  have f: "fetch exampleEnv [] ?q = Inr (okResponse oneEmbedding)" by (simp add: exampleEnv_def)
  have fe: "firstEmbedding oneEmbedding = Inr [JNum 1, JNum 2, JNum 3]"
    by (simp add: firstEmbedding_def oneEmbedding_def)
  have g5: "getDimension staleAdapter = 5" by (simp add: getDimension_def staleAdapter_def)
  note T = setModel_redetects[OF h1 h2 h3, of "Single ''test''" undefined undefined undefined 5000,
      unfolded renamedWorld_def[symmetric] r0 hk]
  from T have c1: "requests ?w' = [] @ [?q]" by blast
  from T have c2: "body_model (body ?q) = ''new-model''" by blast
  from T have c3: "\<forall>res j emb.
             fetch exampleEnv [] ?q = Inr res
             \<and> ok res \<and> response_json res = Inr j \<and> firstEmbedding j = Inr emb \<and> emb \<noteq> []
             \<longrightarrow> Inr () = (Inr () :: js_error + unit) \<and> getDimension detectedAdapter = int (length emb)" by blast
  from c3 f fe have c3': "getDimension detectedAdapter = 3"
    by (auto simp: okResponse_def)
  from T have c4: "requests (snd (snd (setTimeout 5000 staleAdapter prefixOnWorld))) = []" by blast
  show ?thesis using h1 h2 h3 c1 c2 g5 c3' c4 r0 by simp
qed

subsection \<open>Batch responses\<close>

lemma validItem_cases:
  "validItem item \<longleftrightarrow> (\<exists>kvs emb. item = JObj kvs \<and> map_of kvs ''embedding'' = Some (JArr emb))"
  by (cases item; cases "get_prop item ''embedding''"; simp add: validItem_def)
     (metis isArray.elims(2) isArray.simps(1) option.inject)

lemma map_items_valid:
  assumes "validItem item"
  shows "map_items d i (item # items) =
     (case map_items d (Suc i) items of Inl err \<Rightarrow> Inl err
      | Inr vs \<Rightarrow> Inr (\<lparr>vector = itemEmbedding item, vdimension = d\<rparr> # vs))"
proof -
  from assms obtain kvs emb where i: "item = JObj kvs" "map_of kvs ''embedding'' = Some (JArr emb)"
    by (auto simp: validItem_cases)
  then have e: "itemEmbedding item = emb" by (simp add: itemEmbedding_def)
  show ?thesis unfolding e using i by simp
qed

lemma map_items_invalid:
  "\<not> validItem item \<Longrightarrow> map_items d i (item # items) = Inl (itemError i item)"
  by (cases item; cases "get_prop item ''embedding''")
     (auto simp: validItem_def itemError_def split: option.splits json.splits)

lemma map_items_char:
  "map_items d i items =
     (if list_all validItem items
      then Inr (map (\<lambda>item. \<lparr>vector = itemEmbedding item, vdimension = d\<rparr>) items)
      else Inl (itemError (i + firstInvalid items) (items ! firstInvalid items)))"
proof (induction items arbitrary: i)
  case Nil
  then show ?case by simp
next
  case (Cons item items)
  show ?case
  proof (cases "validItem item")
    case True
    then show ?thesis
      by (simp add: map_items_valid Cons.IH firstInvalid_def del: map_items.simps)
  next
    case False
    then show ?thesis
      by (simp add: map_items_invalid firstInvalid_def del: map_items.simps)
  qed
qed

lemma firstInvalid_invalid:
  "\<not> list_all validItem items \<Longrightarrow>
   firstInvalid items < length items \<and> \<not> validItem (items ! firstInvalid items)"
  by (induction items) (auto simp: firstInvalid_def)



text \<open>
  Claim C6. When the batch request has come back with a non-empty \<open>data\<close> array:
  if every element has an \<open>embedding\<close> array, \<open>embedBatch\<close> returns one vector per
  element, in the order of the response; otherwise the whole call throws a network error
  whose message ends with the index of the first invalid element, and no vector is
  returned for the valid ones.
\<close>

theorem batch_is_all_or_nothing:
  assumes "ts \<noteq> []"
      and "ensureDimensionDetected e a w = (Inr u, a1, w1)"
      and "makeRequest e a1 w1 (embeddings_url a1)
             \<lparr>input = Batch (map (preprocessTextForCode e a w) ts),
                body_model = request_model a1 w1\<rparr> = (Inr response, w2)"
      and "get_prop response ''data'' = Some (JArr items)"
      and "items \<noteq> []"
  shows "(list_all validItem items \<longrightarrow>
            embedBatch e ts a w =
              (Inr (map (\<lambda>item. \<lparr>vector = itemEmbedding item, vdimension = this_dimension a1\<rparr>) items),
               a1, w2))
       \<and> (\<not> list_all validItem items \<longrightarrow>
            firstInvalid items < length items
          \<and> \<not> validItem (items ! firstInvalid items)
          \<and> list_all validItem (take (firstInvalid items) items)
          \<and> embedBatch e ts a w =
              (Inl (itemError (firstInvalid items) (items ! firstInvalid items)), a1, w2)
          \<and> isNetworkError (itemError (firstInvalid items) (items ! firstInvalid items))
          \<and> (\<exists>s. error_message (itemError (firstInvalid items) (items ! firstInvalid items)) =
                  s @ ''at index '' @ show_nat (firstInvalid items)))"
proof -
  from assms(4) obtain kvs where r: "response = JObj kvs" by (cases response) simp_all
  have b: "batchEmbeddings (this_dimension a1) response = map_items (this_dimension a1) 0 items"
    using assms(4,5) r by (simp add: batchEmbeddings_def)
  have eb: "embedBatch e ts a w = (map_items (this_dimension a1) 0 items, a1, w2)"
    using assms(1,2,3) b by (simp add: embedBatch_def Let_def)
  have tk: "list_all validItem (take (firstInvalid items) items)"
    unfolding firstInvalid_def
    by (metis list_all_iff set_takeWhileD takeWhile_eq_take)
  have nw: "isNetworkError (itemError k item)" for k item
    by (simp add: itemError_def NetworkError_def)
  have msg: "\<exists>s. error_message (itemError k item) = s @ ''at index '' @ show_nat k" for k item
  proof (cases "truthy (Some item) \<and> typeofObject (Some item)")
    case True
    then have "error_message (itemError k item) =
        ''LlamaCpp network error: Invalid batch response format: missing or invalid embedding '' @
        ''at index '' @ show_nat k"
      by (simp add: itemError_def NetworkError_def)
    then show ?thesis by blast
  next
    case False
    then have "error_message (itemError k item) =
        ''LlamaCpp network error: Invalid batch response format: invalid item '' @
        ''at index '' @ show_nat k"
      by (simp add: itemError_def NetworkError_def)
    then show ?thesis by blast
  qed
  show ?thesis
    using eb tk nw msg firstInvalid_invalid[of items]
    by (simp add: map_items_char)
qed

theorem batch_is_all_or_nothing_witness:
  "ensureDimensionDetected mixedEnv detectedAdapter prefixOnWorld = (Inr (), detectedAdapter, prefixOnWorld)
   \<and> get_prop mixedBatch ''data'' =
       Some (JArr [JObj [(''embedding'', JArr [JNum 1])], JObj [(''embedding'', JStr ''none'')], JNull])
   \<and> \<not> list_all validItem [JObj [(''embedding'', JArr [JNum 1])], JObj [(''embedding'', JStr ''none'')], JNull]
   \<and> fst (embedBatch mixedEnv [''a'', ''b'', ''c''] detectedAdapter prefixOnWorld) =
       Inl (NetworkError
         ''Invalid batch response format: missing or invalid embedding at index 1'' None)
   \<and> ensureDimensionDetected exampleEnv detectedAdapter prefixOnWorld = (Inr (), detectedAdapter, prefixOnWorld)
   \<and> list_all validItem [JObj [(''embedding'', JArr [JNum 1, JNum 2, JNum 3])]]
   \<and> fst (embedBatch exampleEnv [''a''] detectedAdapter prefixOnWorld) =
       Inr [\<lparr>vector = [JNum 1, JNum 2, JNum 3], vdimension = 3\<rparr>]"
proof -
  let ?items = "[JObj [(''embedding'', JArr [JNum 1])], JObj [(''embedding'', JStr ''none'')], JNull]"
  let ?one = "[JObj [(''embedding'', JArr [JNum 1, JNum 2, JNum 3])]]"
  let ?b3 = "\<lparr>input = Batch (map (preprocessTextForCode mixedEnv detectedAdapter prefixOnWorld) [''a'', ''b'', ''c'']),
                body_model = request_model detectedAdapter prefixOnWorld\<rparr>"
  let ?b1 = "\<lparr>input = Batch (map (preprocessTextForCode exampleEnv detectedAdapter prefixOnWorld) [''a'']),
                body_model = request_model detectedAdapter prefixOnWorld\<rparr>"
  have n3: "[''a'', ''b'', ''c''] \<noteq> ([] :: string list)" and n1: "[''a''] \<noteq> ([] :: string list)"
    by simp_all
  have e3: "ensureDimensionDetected mixedEnv detectedAdapter prefixOnWorld = (Inr (), detectedAdapter, prefixOnWorld)"
    by (simp add: ensureDimensionDetected_def detectedAdapter_def)
  have e1: "ensureDimensionDetected exampleEnv detectedAdapter prefixOnWorld = (Inr (), detectedAdapter, prefixOnWorld)"
    by (simp add: ensureDimensionDetected_def detectedAdapter_def)
  obtain w3 where m3: "makeRequest mixedEnv detectedAdapter prefixOnWorld (embeddings_url detectedAdapter) ?b3
      = (Inr mixedBatch, w3)"
    by (simp add: makeRequest_def makeRequest_try_def mixedEnv_def exampleEnv_def okResponse_def Let_def)
  obtain w1 where m1: "makeRequest exampleEnv detectedAdapter prefixOnWorld (embeddings_url detectedAdapter) ?b1
      = (Inr oneEmbedding, w1)"
    by (simp add: makeRequest_def makeRequest_try_def exampleEnv_def okResponse_def Let_def)
  have d3: "get_prop mixedBatch ''data'' = Some (JArr ?items)" by (simp add: mixedBatch_def)
  have d1: "get_prop oneEmbedding ''data'' = Some (JArr ?one)" by (simp add: oneEmbedding_def)
  have i3: "?items \<noteq> []" and i1: "?one \<noteq> []" by simp_all
  have v3: "\<not> list_all validItem ?items" by (simp add: validItem_def)
  have v1: "list_all validItem ?one" by (simp add: validItem_def)
  have f3: "firstInvalid ?items = 1" by (simp add: firstInvalid_def validItem_def)
  have dim: "this_dimension detectedAdapter = 3" by (simp add: detectedAdapter_def)
  have ie: "itemError 1 (?items ! 1) =
      NetworkError ''Invalid batch response format: missing or invalid embedding at index 1'' None"
    by (simp add: itemError_def show_nat.simps)
  from batch_is_all_or_nothing[OF n3 e3 m3 d3 i3] v3
  have "embedBatch mixedEnv [''a'', ''b'', ''c''] detectedAdapter prefixOnWorld =
      (Inl (itemError (firstInvalid ?items) (?items ! firstInvalid ?items)), detectedAdapter, w3)"
    by blast
  then have c3: "fst (embedBatch mixedEnv [''a'', ''b'', ''c''] detectedAdapter prefixOnWorld) =
       Inl (NetworkError
         ''Invalid batch response format: missing or invalid embedding at index 1'' None)"
    by (simp only: f3 ie fst_conv)
  from batch_is_all_or_nothing[OF n1 e1 m1 d1 i1] v1
  have "embedBatch exampleEnv [''a''] detectedAdapter prefixOnWorld =
      (Inr (map (\<lambda>item. \<lparr>vector = itemEmbedding item, vdimension = this_dimension detectedAdapter\<rparr>) ?one),
       detectedAdapter, w1)"
    by blast
  then have c1: "fst (embedBatch exampleEnv [''a''] detectedAdapter prefixOnWorld) =
       Inr [\<lparr>vector = [JNum 1, JNum 2, JNum 3], vdimension = 3\<rparr>]"
    by (simp add: itemEmbedding_def dim)
  show ?thesis using e3 d3 v3 c3 e1 v1 c1 by blast
qed

subsection \<open>The copy returned by getConfig\<close>

lemma same_except_config:
  "same_except r w v \<Longrightarrow> this_config a \<noteq> r \<Longrightarrow> config a v = config a w"
  by (simp add: same_except_def config_def)

lemma same_except_requests:
  "same_except r w v \<Longrightarrow> same_except r (w\<lparr>requests := q\<rparr>) (v\<lparr>requests := q\<rparr>)"
  by (simp add: same_except_def)

lemma same_except_set_config:
  "same_except r w v \<Longrightarrow> this_config a \<noteq> r \<Longrightarrow> same_except r (set_config a f w) (set_config a f v)"
  by (simp add: same_except_def set_config_def)

lemma makeRequest_try_transfer:
  assumes "config a v = config a w" "requests v = requests w"
  shows "makeRequest_try e a v u b =
     (fst (makeRequest_try e a w u b), v\<lparr>requests := requests (snd (makeRequest_try e a w u b))\<rparr>)"
  using assms by (simp add: makeRequest_try_def Let_def split: sum.splits)

lemma makeRequest_catch_transfer:
  "config a v = config a w \<Longrightarrow> makeRequest_catch a v err = makeRequest_catch a w err"
  by (cases err) (simp_all add: makeRequest_catch_def)

lemma makeRequest_transfer:
  assumes "config a v = config a w" "requests v = requests w"
  shows "makeRequest e a v u b =
     (fst (makeRequest e a w u b), v\<lparr>requests := requests (snd (makeRequest e a w u b))\<rparr>)"
  using assms
  by (simp add: makeRequest_def makeRequest_try_transfer[OF assms]
      makeRequest_catch_transfer[OF assms(1)] split: prod.splits sum.splits)

lemma request_model_transfer: "config a v = config a w \<Longrightarrow> request_model a v = request_model a w"
  by (simp add: request_model_def)

lemma detectDimension_transfer:
  assumes "config a v = config a w" "requests v = requests w"
  shows "detectDimension e t a v =
     (fst (detectDimension e t a w), v\<lparr>requests := requests (snd (detectDimension e t a w))\<rparr>)"
  using assms
  by (simp add: detectDimension_def detectDimension_try_def makeRequest_transfer[OF assms]
      request_model_transfer[OF assms(1)] Let_def split: prod.splits sum.splits)

lemma ensure_transfer:
  assumes "config a v = config a w" "requests v = requests w"
  shows "ensureDimensionDetected e a v =
     (case ensureDimensionDetected e a w of (r, a1, w1) \<Rightarrow> (r, a1, v\<lparr>requests := requests w1\<rparr>))"
  using assms
  by (simp add: ensureDimensionDetected_def detectDimension_transfer[OF assms]
      split: prod.splits sum.splits)


lemma same_except_grow:
  "same_except r w v \<Longrightarrow> store w' = store w \<Longrightarrow> next_addr w' = next_addr w \<Longrightarrow>
   same_except r w' (v\<lparr>requests := requests w'\<rparr>)"
  by (simp add: same_except_def)

lemma preprocessTextForCode_transfer:
  "config a v = config a w \<Longrightarrow> preprocessTextForCode e a v = preprocessTextForCode e a w"
  by (rule ext) (simp add: preprocessTextForCode_def)

lemma config_after_ensure:
  assumes "ensureDimensionDetected e a w = (r1, a1, w1)" "config a v = config a w"
  shows "config a1 (v\<lparr>requests := q\<rparr>) = config a1 w1"
  using ensure_shape(1,3)[OF assms(1)] assms(2) by (simp add: config_def)

lemma embed_transfer:
  assumes "config a v = config a w" "requests v = requests w"
  shows "embed e t a v = (case embed e t a w of (r, a', w') \<Rightarrow> (r, a', v\<lparr>requests := requests w'\<rparr>))"
proof -
  obtain r1 a1 w1 where en: "ensureDimensionDetected e a w = (r1, a1, w1)"
    by (cases "ensureDimensionDetected e a w")
  let ?v1 = "v\<lparr>requests := requests w1\<rparr>"
  have env: "ensureDimensionDetected e a v = (r1, a1, ?v1)"
    using ensure_transfer[OF assms, of e] en by simp
  note pp = preprocessTextForCode_transfer[OF assms(1), of e]
  have c1: "config a1 ?v1 = config a1 w1" using config_after_ensure[OF en assms(1)] .
  have q1: "requests ?v1 = requests w1" by simp
  note mr = makeRequest_transfer[OF c1 q1, of e]
  note rm = request_model_transfer[OF c1]
  show ?thesis
    by (cases r1) (simp_all add: embed_def en env pp mr rm Let_def split: prod.splits sum.splits)
qed

lemma embedBatch_transfer:
  assumes "config a v = config a w" "requests v = requests w"
  shows "embedBatch e ts a v =
     (case embedBatch e ts a w of (r, a', w') \<Rightarrow> (r, a', v\<lparr>requests := requests w'\<rparr>))"
proof (cases "ts = []")
  case True
  then show ?thesis using assms(2) by (simp add: embedBatch_def)
next
  case False
  obtain r1 a1 w1 where en: "ensureDimensionDetected e a w = (r1, a1, w1)"
    by (cases "ensureDimensionDetected e a w")
  let ?v1 = "v\<lparr>requests := requests w1\<rparr>"
  have env: "ensureDimensionDetected e a v = (r1, a1, ?v1)"
    using ensure_transfer[OF assms, of e] en by simp
  note pp = preprocessTextForCode_transfer[OF assms(1), of e]
  have c1: "config a1 ?v1 = config a1 w1" using config_after_ensure[OF en assms(1)] .
  have q1: "requests ?v1 = requests w1" by simp
  note mr = makeRequest_transfer[OF c1 q1, of e]
  note rm = request_model_transfer[OF c1]
  show ?thesis using False
    by (cases r1) (simp_all add: embedBatch_def en env pp mr rm Let_def split: prod.splits sum.splits)
qed

lemma perform_same_except:
  assumes "same_except r w v" "this_config a \<noteq> r" "perform e op a w = (out, a', w')"
  shows "\<exists>v'. perform e op a v = (out, a', v') \<and> same_except r w' v' \<and> this_config a' = this_config a"
proof -
  note c = same_except_config[OF assms(1,2)]
  have q: "requests v = requests w" using assms(1) by (simp add: same_except_def)
  show ?thesis
  proof (cases op)
    case (Embed t)
    with assms(3) obtain r0 where e0: "embed e t a w = (r0, a', w')" "out = outcome_of ReturnedVector r0"
      by (auto split: prod.splits)
    from embed_frame[OF e0(1)] have f: "store w' = store w" "next_addr w' = next_addr w"
      "this_config a' = this_config a" by simp_all
    from embed_transfer[OF c q, of e t] e0 Embed
    have "perform e op a v = (out, a', v\<lparr>requests := requests w'\<rparr>)" by simp
    with same_except_grow[OF assms(1) f(1,2)] f(3) show ?thesis by blast
  next
    case (EmbedBatch ts)
    with assms(3) obtain r0 where e0: "embedBatch e ts a w = (r0, a', w')" "out = outcome_of ReturnedVectors r0"
      by (auto split: prod.splits)
    from embedBatch_frame[OF e0(1)] have f: "store w' = store w" "next_addr w' = next_addr w"
      "this_config a' = this_config a" by simp_all
    from embedBatch_transfer[OF c q, of e ts] e0 EmbedBatch
    have "perform e op a v = (out, a', v\<lparr>requests := requests w'\<rparr>)" by simp
    with same_except_grow[OF assms(1) f(1,2)] f(3) show ?thesis by blast
  next
    case (DetectDimension t)
    with assms(3) obtain r0 where e0: "detectDimension e t a w = (r0, w')" "out = outcome_of ReturnedNumber r0"
      "a' = a" by (auto split: prod.splits)
    from detectDimension_world[OF e0(1)] have f: "store w' = store w" "next_addr w' = next_addr w"
      by simp_all
    from detectDimension_transfer[OF c q, of e t] e0 DetectDimension
    have "perform e op a v = (out, a', v\<lparr>requests := requests w'\<rparr>)" by simp
    with same_except_grow[OF assms(1) f(1,2)] e0(3) show ?thesis by blast
  next
    case (SetHost h)
    with assms same_except_set_config[OF assms(1,2)] show ?thesis
      by (auto simp: setHost_def split: sum.splits)
  next
    case (SetModel m)
    show ?thesis
    proof (cases "trim m = []")
      case True
      with SetModel assms show ?thesis by (auto simp: setModel_def)
    next
      case False
      let ?f = "\<lambda>c. c\<lparr>model := Some m\<rparr>"
      let ?a1 = "a\<lparr>this_dimensionDetected := False\<rparr>"
      let ?w1 = "set_config a ?f w" and ?v1 = "set_config a ?f v"
      have s1: "same_except r ?w1 ?v1" using same_except_set_config[OF assms(1,2)] .
      have c1: "config ?a1 ?v1 = config ?a1 ?w1" using c by (simp add: config_def set_config_def)
      have q1: "requests ?v1 = requests ?w1" using q by (simp add: set_config_def)
      show ?thesis
      proof (cases "truthy_num (dimension (config ?a1 ?w1))")
        case True
        with False SetModel assms(3) c1 s1 show ?thesis
          by (auto simp: setModel_def Let_def)
      next
        case nd: False
        from nd False SetModel assms(3) obtain r0 where
          en: "ensureDimensionDetected e ?a1 ?w1 = (r0, a', w')" "out = outcome_of (\<lambda>_. Returned) r0"
          by (auto simp: setModel_def Let_def split: prod.splits)
        from ensure_shape[OF en(1)] have f: "store w' = store ?w1" "next_addr w' = next_addr ?w1"
          "this_config a' = this_config a" by simp_all
        from ensure_transfer[OF c1 q1, of e] en(1)
        have "ensureDimensionDetected e ?a1 ?v1 = (r0, a', ?v1\<lparr>requests := requests w'\<rparr>)" by simp
        with nd False SetModel c1 en(2)
        have "perform e op a v = (out, a', ?v1\<lparr>requests := requests w'\<rparr>)"
          by (simp add: setModel_def Let_def)
        with same_except_grow[OF s1 f(1,2)] f(3) show ?thesis by blast
      qed
    qed
  next
    case (SetCodePrefix b)
    with assms same_except_set_config[OF assms(1,2)] show ?thesis
      by (auto simp: setCodePrefix_def)
  next
    case (SetCustomCodePrefix p)
    with assms same_except_set_config[OF assms(1,2)] show ?thesis
      by (auto simp: setCustomCodePrefix_def split: if_splits)
  next
    case (SetTimeout t)
    with assms same_except_set_config[OF assms(1,2)] show ?thesis
      by (auto simp: setTimeout_def split: if_splits)
  next
    case GetConfig
    with assms c show ?thesis
      by (auto simp: getConfig_def same_except_def)
  next
    case GetDimension
    with assms show ?thesis by auto
  next
    case GetProvider
    with assms show ?thesis by auto
  next
    case GetModel
    with assms c show ?thesis by (auto simp: getModel_def)
  qed
qed


lemma run_same_except:
  assumes "same_except r w v" "this_config a \<noteq> r" "run e ops a w = (outs, a', w')"
  shows "\<exists>v'. run e ops a v = (outs, a', v') \<and> same_except r w' v' \<and> this_config a' = this_config a"
  using assms
proof (induction ops arbitrary: a w v outs)
  case Nil
  then show ?case by simp
next
  case (Cons op ops)
  obtain o1 a1 w1 where p: "perform e op a w = (o1, a1, w1)" by (cases "perform e op a w")
  obtain os where r: "run e ops a1 w1 = (os, a', w')" "outs = o1 # os"
    using Cons.prems(3) p by (auto split: prod.splits)
  from perform_same_except[OF Cons.prems(1,2) p] obtain v1 where
    pv: "perform e op a v = (o1, a1, v1)" "same_except r w1 v1" "this_config a1 = this_config a"
    by blast
  from pv(3) Cons.prems(2) have "this_config a1 \<noteq> r" by simp
  from Cons.IH[OF pv(2) this r(1)] obtain v' where
    rv: "run e ops a1 v1 = (os, a', v')" "same_except r w' v'" "this_config a' = this_config a1"
    by blast
  from pv rv r(2) show ?case by simp
qed

lemma same_except_sym: "same_except r w v \<Longrightarrow> same_except r v w"
  by (simp add: same_except_def)


text \<open>
  Claim C8. \<open>getConfig\<close> returns a new object, at an address other than that of the
  adapter's configuration, holding the same fields. Whatever the caller writes into the
  returned object, the adapter's configuration is as before, and every sequence of
  operations gives the same outcomes and the same adapter as without the write, in worlds
  that differ only in the returned object.
\<close>

theorem getConfig_returns_independent_copy:
  assumes "this_config a < next_addr w"
      and "getConfig a w = (r, w1)"
      and "run e ops a (w1\<lparr>store := (store w1)(r := c)\<rparr>) = (outs, a', w')"
  shows "r \<noteq> this_config a
       \<and> store w1 r = config a w
       \<and> config a w1 = config a w
       \<and> config a (w1\<lparr>store := (store w1)(r := c)\<rparr>) = config a w
       \<and> (\<exists>v'. run e ops a w1 = (outs, a', v') \<and> same_except r v' w')"
proof -
  from assms(2) have r: "r = next_addr w"
    and w1: "w1 = w\<lparr>store := (store w)(next_addr w := config a w), next_addr := Suc (next_addr w)\<rparr>"
    by (auto simp: getConfig_def)
  from r assms(1) have ne: "r \<noteq> this_config a" by simp
  then have ne': "this_config a \<noteq> r" by simp
  have s: "same_except r (w1\<lparr>store := (store w1)(r := c)\<rparr>) w1"
    by (simp add: same_except_def)
  from run_same_except[OF s ne' assms(3)] obtain v' where
    "run e ops a w1 = (outs, a', v')" "same_except r w' v'" by blast
  then have "\<exists>v'. run e ops a w1 = (outs, a', v') \<and> same_except r v' w'"
    using same_except_sym by blast
  with ne r w1 show ?thesis by (simp add: config_def)
qed

theorem getConfig_returns_independent_copy_witness:
  "this_config freshAdapter < next_addr prefixOnWorld
   \<and> getConfig freshAdapter prefixOnWorld = (1, copiedWorld)
   \<and> run exampleEnv [GetModel, Embed ''foo'', GetConfig] freshAdapter
        (copiedWorld\<lparr>store := (store copiedWorld)(1 := tamperedConfig)\<rparr>) =
       ([ReturnedString ''nomic-embed-code'',
         ReturnedVector \<lparr>vector = [JNum 1, JNum 2, JNum 3], vdimension = 3\<rparr>,
         ReturnedObject 2], detectedAdapter,
        copiedWorld\<lparr>store := (store copiedWorld)(1 := tamperedConfig,
                                                     2 := emptyConfig\<lparr>codePrefix := Some True\<rparr>),
                     next_addr := 3,
                     requests := [sent freshAdapter prefixOnWorld (Single ''test''),
                       sent freshAdapter prefixOnWorld
                         (Single ''Represent this query for searching relevant code: foo'')]\<rparr>)
   \<and> (1::nat) \<noteq> this_config freshAdapter
   \<and> config freshAdapter (copiedWorld\<lparr>store := (store copiedWorld)(1 := tamperedConfig)\<rparr>) =
       config freshAdapter prefixOnWorld
   \<and> (\<exists>v'. run exampleEnv [GetModel, Embed ''foo'', GetConfig] freshAdapter copiedWorld =
       ([ReturnedString ''nomic-embed-code'',
         ReturnedVector \<lparr>vector = [JNum 1, JNum 2, JNum 3], vdimension = 3\<rparr>,
         ReturnedObject 2], detectedAdapter, v'))"
proof -
  let ?ops = "[GetModel, Embed ''foo'', GetConfig]"
  let ?outs = "[ReturnedString ''nomic-embed-code'',
         ReturnedVector \<lparr>vector = [JNum 1, JNum 2, JNum 3], vdimension = 3\<rparr>,
         ReturnedObject 2]"
  let ?t = "copiedWorld\<lparr>store := (store copiedWorld)(1 := tamperedConfig)\<rparr>"
  let ?w' = "copiedWorld\<lparr>store := (store copiedWorld)(1 := tamperedConfig,
                                                     2 := emptyConfig\<lparr>codePrefix := Some True\<rparr>),
                     next_addr := 3,
                     requests := [sent freshAdapter prefixOnWorld (Single ''test''),
                       sent freshAdapter prefixOnWorld
                         (Single ''Represent this query for searching relevant code: foo'')]\<rparr>"
  have h1: "this_config freshAdapter < next_addr prefixOnWorld"
    by (simp add: prefixOnWorld_def setting_defs)
  have h2: "getConfig freshAdapter prefixOnWorld = (1, copiedWorld)"
    by (simp add: getConfig_def copiedWorld_def prefixOnWorld_def setting_defs config_def)
  have h3: "run exampleEnv ?ops freshAdapter ?t = (?outs, detectedAdapter, ?w')"
    by (simp add: copiedWorld_def tamperedConfig_def detectedAdapter_def prefixOnWorld_def
        setting_defs request_defs embed_defs sent_def getModel_def getConfig_def)
  from getConfig_returns_independent_copy[OF h1 h2 h3]
  have c: "(1::nat) \<noteq> this_config freshAdapter"
    "config freshAdapter ?t = config freshAdapter prefixOnWorld"
    "\<exists>v'. run exampleEnv ?ops freshAdapter copiedWorld = (?outs, detectedAdapter, v')"
    by blast+
  show ?thesis using h1 h2 h3 c by blast
qed

end
